theory Spec2Isabelle
  imports Main "HOL-Library.AList" "HOL-Library.Char_ord" "HOL-Library.List_Lexorder"
begin

section \<open>Strings\<close>

text \<open>
  Python \<^verbatim>\<open>str\<close> values are modelled as \<^typ>\<open>string\<close>.  Every name the
  registry handles is ASCII, and the case operations below are the ASCII part of
  \<^verbatim>\<open>str.upper\<close>, \<^verbatim>\<open>str.lower\<close>, \<^verbatim>\<open>str.capitalize\<close>, \<^verbatim>\<open>str.islower\<close> and
  \<^verbatim>\<open>str.isupper\<close>: a character outside \<open>a..z\<close>, \<open>A..Z\<close> is uncased.
\<close>

definition is_lower_char :: "char \<Rightarrow> bool" where
  "is_lower_char c = (CHR ''a'' \<le> c \<and> c \<le> CHR ''z'')"

definition is_upper_char :: "char \<Rightarrow> bool" where
  "is_upper_char c = (CHR ''A'' \<le> c \<and> c \<le> CHR ''Z'')"

definition upper_char :: "char \<Rightarrow> char" where
  "upper_char c =
     (if is_lower_char c then ''ABCDEFGHIJKLMNOPQRSTUVWXYZ'' ! (of_char c - 97) else c)"

definition lower_char :: "char \<Rightarrow> char" where
  "lower_char c =
     (if is_upper_char c then ''abcdefghijklmnopqrstuvwxyz'' ! (of_char c - 65) else c)"

definition upper :: "string \<Rightarrow> string" where
  "upper s = map upper_char s"

definition lower :: "string \<Rightarrow> string" where
  "lower s = map lower_char s"

definition capitalize :: "string \<Rightarrow> string" where
  "capitalize s = (case s of [] \<Rightarrow> [] | c # cs \<Rightarrow> upper_char c # lower cs)"

definition islower :: "string \<Rightarrow> bool" where
  "islower s = ((\<exists>c \<in> set s. is_lower_char c) \<and> (\<forall>c \<in> set s. \<not> is_upper_char c))"

definition isupper :: "string \<Rightarrow> bool" where
  "isupper s = ((\<exists>c \<in> set s. is_upper_char c) \<and> (\<forall>c \<in> set s. \<not> is_lower_char c))"

definition endswith :: "string \<Rightarrow> string \<Rightarrow> bool" where
  "endswith s suffix =
     (length suffix \<le> length s \<and> drop (length s - length suffix) s = suffix)"

text \<open>\<^verbatim>\<open>sep.join(xs)\<close>.\<close>

fun join :: "string \<Rightarrow> string list \<Rightarrow> string" where
  "join sep [] = []"
| "join sep [x] = x"
| "join sep (x # y # xs) = x @ sep @ join sep (y # xs)"

text \<open>
  \<^verbatim>\<open>repr\<close> of an ASCII string: single quotes, unless the string holds a single quote
  and no double quote; the quote character and the backslash are escaped, tab, newline
  and carriage return are written \<^verbatim>\<open>\t\<close>, \<^verbatim>\<open>\n\<close>, \<^verbatim>\<open>\r\<close>, any other
  non-printable character as \<^verbatim>\<open>\xhh\<close>.
\<close>

definition hex2 :: "nat \<Rightarrow> string" where
  "hex2 n = [''0123456789abcdef'' ! ((n div 16) mod 16), ''0123456789abcdef'' ! (n mod 16)]"

definition repr_char :: "char \<Rightarrow> char \<Rightarrow> string" where
  "repr_char quote c =
     (if c = quote \<or> c = CHR 0x5C then [CHR 0x5C, c]
      else if c = CHR 0x09 then [CHR 0x5C, CHR ''t'']
      else if c = CHR 0x0A then [CHR 0x5C, CHR ''n'']
      else if c = CHR 0x0D then [CHR 0x5C, CHR ''r'']
      else if c < CHR 0x20 \<or> CHR 0x7F \<le> c then [CHR 0x5C, CHR ''x''] @ hex2 (of_char c)
      else [c])"

definition repr :: "string \<Rightarrow> string" where
  "repr s =
     (let quote = (if CHR 0x27 \<in> set s \<and> CHR 0x22 \<notin> set s then CHR 0x22 else CHR 0x27)
      in quote # concat (map (repr_char quote) s) @ [quote])"

section \<open>Exceptions\<close>

text \<open>
  One constructor per exception class the dispatch code raises or catches; the argument
  is the message, which is what \<^verbatim>\<open>str(exc)\<close> and an f-string \<^verbatim>\<open>{exc}\<close> give.
  \<open>DelayedImport\<close> is an instance of the class \<^verbatim>\<open>DelayedImportError\<close>, a subclass of
  \<^verbatim>\<open>ImportError\<close>; \<open>OtherException cls msg\<close> is an instance of any further class
  \<open>cls\<close> derived from \<^verbatim>\<open>Exception\<close>.
\<close>

datatype exn =
    AttributeError string
  | ImportError string
  | DelayedImport string
  | ValueError string
  | TypeError string
  | KeyError string
  | RecursionError string
  | OtherException string string

fun str_exn :: "exn \<Rightarrow> string" where
  "str_exn (AttributeError msg) = msg"
| "str_exn (ImportError msg) = msg"
| "str_exn (DelayedImport msg) = msg"
| "str_exn (ValueError msg) = msg"
| "str_exn (TypeError msg) = msg"
| "str_exn (KeyError msg) = msg"
| "str_exn (RecursionError msg) = msg"
| "str_exn (OtherException cls msg) = msg"

text \<open>
  \<^verbatim>\<open>class DelayedImportError(ImportError)\<close>: the constructor takes the attribute name
  and stores the message built from it.
\<close>

definition DelayedImportError :: "string \<Rightarrow> exn" where
  "DelayedImportError name =
     (let msg = ''could not import name '' @ repr name @ '' from 'imagecodecs'' @ [CHR 0x27]
      in DelayedImport msg)"

text \<open>What \<^verbatim>\<open>except DelayedImportError\<close>, \<^verbatim>\<open>except ImportError\<close> and
  \<^verbatim>\<open>except AttributeError\<close> catch.\<close>

fun is_DelayedImportError :: "exn \<Rightarrow> bool" where
  "is_DelayedImportError (DelayedImport _) = True"
| "is_DelayedImportError _ = False"

fun is_ImportError :: "exn \<Rightarrow> bool" where
  "is_ImportError (ImportError _) = True"
| "is_ImportError (DelayedImport _) = True"
| "is_ImportError _ = False"

fun is_AttributeError :: "exn \<Rightarrow> bool" where
  "is_AttributeError (AttributeError _) = True"
| "is_AttributeError _ = False"

section \<open>The registry\<close>

text \<open>
  \<^verbatim>\<open>_API\<close> maps a module name (or \<^verbatim>\<open>None\<close>) to a list whose items are attribute
  names or tuples of codec names.  Python dictionaries keep insertion order, so the
  dictionaries are association lists updated with \<^const>\<open>AList.update\<close>.
\<close>

datatype entry = Name string | Group "string list"

record registry =
  API :: "(string option \<times> entry list) list"
  ATTRIBUTES :: "(string \<times> string option) list"
  CODECS :: "(string \<times> string option) list"

definition API0 :: "(string option \<times> entry list) list" where
  "API0 = [
    (None, [Name ''version'', Name ''imread'', Name ''imwrite'', Name ''imagefileext'',
            Name ''DelayedImportError'', Group [''none'', ''numpy'', ''jpeg'']]),
    (Some ''imcd'', [Name ''imcd_version'', Name ''numpy_abi_version'', Name ''cython_version'',
            Group [''bitorder'', ''byteshuffle'', ''delta'', ''float24'', ''floatpred'',
                   ''lzw'', ''packbits'', ''packints'', ''xor'']]),
    (Some ''aec'', []),
    (Some ''apng'', []),
    (Some ''avif'', []),
    (Some ''bitshuffle'', []),
    (Some ''blosc'', []),
    (Some ''blosc2'', []),
    (Some ''brotli'', []),
    (Some ''brunsli'', []),
    (Some ''bz2'', []),
    (Some ''cms'', [Name ''cms_transform'', Name ''cms_profile'']),
    (Some ''deflate'', [Name ''deflate_crc32'', Name ''deflate_adler32'',
            Group [''deflate'', ''gzip'']]),
    (Some ''gif'', []),
    (Some ''heif'', []),
    (Some ''jetraw'', [Name ''jetraw_init'']),
    (Some ''jpeg2k'', []),
    (Some ''jpeg8'', []),
    (Some ''jpeg12'', []),
    (Some ''jpegls'', []),
    (Some ''jpegsof3'', []),
    (Some ''jpegxl'', []),
    (Some ''jpegxr'', []),
    (Some ''lerc'', []),
    (Some ''ljpeg'', []),
    (Some ''lz4'', []),
    (Some ''lz4f'', []),
    (Some ''lzf'', []),
    (Some ''lzma'', []),
    (Some ''mozjpeg'', []),
    (Some ''pglz'', []),
    (Some ''qoi'', []),
    (Some ''png'', []),
    (Some ''rgbe'', []),
    (Some ''rcomp'', []),
    (Some ''snappy'', []),
    (Some ''spng'', []),
    (Some ''tiff'', []),
    (Some ''webp'', []),
    (Some ''zfp'', []),
    (Some ''zlib'', [Name ''zlib_crc32'', Name ''zlib_adler32'']),
    (Some ''zlibng'', [Name ''zlibng_crc32'', Name ''zlibng_adler32'']),
    (Some ''zopfli'', []),
    (Some ''zstd'', [])]"

definition COMPATIBILITY :: "(string \<times> string) list" where
  "COMPATIBILITY = [
    (''JPEG'', ''JPEG8''),
    (''jpeg_check'', ''jpeg8_check''),
    (''jpeg_version'', ''jpeg8_version''),
    (''zopfli_check'', ''zlib_check''),
    (''zopfli_decode'', ''zlib_decode''),
    (''j2k_encode'', ''jpeg2k_encode''),
    (''j2k_decode'', ''jpeg2k_decode''),
    (''jxr_encode'', ''jpegxr_encode''),
    (''jxr_decode'', ''jpegxr_decode'')]"

text \<open>The default value of \<^verbatim>\<open>attributes\<close> in \<^verbatim>\<open>_add_codec\<close>.\<close>

definition codec_attributes :: "string \<Rightarrow> string list" where
  "codec_attributes codec =
     [codec @ ''_encode'', codec @ ''_decode'', codec @ ''_check'', codec @ ''_version'',
      capitalize codec @ ''Error'', upper codec]"

text \<open>The string items of a module's list.\<close>

fun names_of :: "entry list \<Rightarrow> string list" where
  "names_of [] = []"
| "names_of (Name n # es) = n # names_of es"
| "names_of (Group g # es) = names_of es"

text \<open>
  \<^verbatim>\<open>_add_codec(module, codec=None)\<close>; no call site passes \<^verbatim>\<open>attributes\<close>.  With
  neither a codec nor a module name, \<^verbatim>\<open>codec.capitalize()\<close> raises.  The keys written
  to \<^verbatim>\<open>_ATTRIBUTES\<close> are the items of the module's list; at every call site the
  module's tuple has already been removed from it, and a tuple left there would become
  a key that no attribute name equals.
\<close>

definition add_codec :: "string option \<Rightarrow> string option \<Rightarrow> registry \<Rightarrow> exn + registry" where
  "add_codec module codec reg =
     (case (if codec = None then module else codec) of
        None \<Rightarrow> Inl (AttributeError ''NoneType object has no attribute capitalize'')
      | Some c \<Rightarrow>
          (let attributes = map Name (codec_attributes c);
               items = (case map_of (API reg) module of
                          Some old \<Rightarrow> old @ attributes
                        | None \<Rightarrow> attributes)
           in Inr (reg\<lparr>API := AList.update module items (API reg),
                       ATTRIBUTES := fold (\<lambda>attr. AList.update attr module) (names_of items)
                                       (ATTRIBUTES reg),
                       CODECS := AList.update c module (CODECS reg)\<rparr>)))"

text \<open>A \<^verbatim>\<open>for\<close> loop whose body may raise.\<close>

fun for_each :: "('a \<Rightarrow> 's \<Rightarrow> exn + 's) \<Rightarrow> 'a list \<Rightarrow> 's \<Rightarrow> exn + 's" where
  "for_each body [] s = Inr s"
| "for_each body (x # xs) s =
     (case body x s of Inl e \<Rightarrow> Inl e | Inr s' \<Rightarrow> for_each body xs s')"

text \<open>The first tuple of a module's list, where the inner loop of
  \<^verbatim>\<open>_register_codecs\<close> breaks.\<close>

fun find_group :: "entry list \<Rightarrow> string list option" where
  "find_group [] = None"
| "find_group (Name n # es) = find_group es"
| "find_group (Group g # es) = Some g"

text \<open>
  One round of the outer loop of \<^verbatim>\<open>_register_codecs\<close>.  \<^verbatim>\<open>attributes\<close> is the list
  object stored under \<^verbatim>\<open>module\<close>, which \<^verbatim>\<open>remove\<close> and \<^verbatim>\<open>extend\<close> change in
  place; the loop only visits keys of \<^verbatim>\<open>_API\<close>, so the lookup finds it.
\<close>

definition register_module :: "string option \<Rightarrow> registry \<Rightarrow> exn + registry" where
  "register_module module reg =
     (case map_of (API reg) module of
        None \<Rightarrow> Inr reg
      | Some attributes \<Rightarrow>
          (case find_group attributes of
             Some attr \<Rightarrow>
               for_each (\<lambda>codec. add_codec module (Some codec)) attr
                 (reg\<lparr>API := AList.update module (remove1 (Group attr) attributes) (API reg)\<rparr>)
           | None \<Rightarrow> add_codec module None reg))"

definition register_codecs :: "registry \<Rightarrow> exn + registry" where
  "register_codecs reg = for_each register_module (map fst (API reg)) reg"

text \<open>The three dictionaries as the module body leaves them.\<close>

definition initial_registry :: registry where
  "initial_registry = \<lparr>API = API0, ATTRIBUTES = [], CODECS = []\<rparr>"

definition REGISTRY :: registry where
  "REGISTRY = (case register_codecs initial_registry of Inr reg \<Rightarrow> reg | Inl e \<Rightarrow> initial_registry)"

text \<open>\<^verbatim>\<open>__dir__()\<close>.\<close>

definition dunder_dir :: "string list" where
  "dunder_dir = sort (map fst (ATTRIBUTES REGISTRY) @ map fst COMPATIBILITY)"

section \<open>Values, functions and classes\<close>

text \<open>
  The data a codec receives and returns.  Only a numpy array has a \<^verbatim>\<open>dtype\<close>;
  \<open>Instance cls\<close> is an object built by calling the class \<open>cls\<close>.
\<close>

datatype pydata =
    PyNone
  | PyBool bool
  | PyStr string
  | PyBytes string
  | NDArray string "nat list" string
  | Instance string

type_synonym kwargs = "(string \<times> pydata) list"

fun dtype_of :: "pydata \<Rightarrow> string option" where
  "dtype_of (NDArray dtype shape buffer) = Some dtype"
| "dtype_of _ = None"

fun type_name :: "pydata \<Rightarrow> string" where
  "type_name PyNone = ''NoneType''"
| "type_name (PyBool b) = ''bool''"
| "type_name (PyStr s) = ''str''"
| "type_name (PyBytes b) = ''bytes''"
| "type_name (NDArray dtype shape buffer) = ''numpy.ndarray''"
| "type_name (Instance cls) = cls"

text \<open>
  A function object: its \<^verbatim>\<open>__name__\<close> and what a call with positional and keyword
  arguments does.  A class object: its \<^verbatim>\<open>__name__\<close>, its docstring, whether
  \<^verbatim>\<open>__init__\<close> raises, and the two methods a metaclass may add: \<^verbatim>\<open>__bool__\<close>, which
  decides the truth value of the class, and \<^verbatim>\<open>__getattr__\<close>, which Python calls for
  an attribute that ordinary lookup does not find on the class.  A callable object is
  an object that can be called but has no \<^verbatim>\<open>__name__\<close>, such as a
  \<^verbatim>\<open>functools.partial\<close> or an instance of a class that defines \<^verbatim>\<open>__call__\<close>; it
  is given by the name of its class and what a call does.
\<close>

datatype func =
  Func (func_name: string) (func_body: "pydata list \<Rightarrow> kwargs \<Rightarrow> exn + pydata")

datatype pyclass =
  PyClass (class_name: string) (class_doc: string)
    (class_init: "pydata list \<Rightarrow> kwargs \<Rightarrow> exn option")
    (meta_bool: "(exn + bool) option") (meta_getattr: "(string \<Rightarrow> exn + pydata) option")

datatype pyobj =
    Data pydata
  | Function func
  | Class (the_class: pyclass)
  | Callable_Object string "pydata list \<Rightarrow> kwargs \<Rightarrow> exn + pydata"

text \<open>\<^verbatim>\<open>obj(*args, **kwargs)\<close>.\<close>

fun py_call :: "pyobj \<Rightarrow> pydata list \<Rightarrow> kwargs \<Rightarrow> exn + pydata" where
  "py_call (Function f) args kwargs = func_body f args kwargs"
| "py_call (Class k) args kwargs =
     (case class_init k args kwargs of
        Some e \<Rightarrow> Inl e
      | None \<Rightarrow> Inr (Instance (class_name k)))"
| "py_call (Callable_Object cls body) args kwargs = body args kwargs"
| "py_call (Data d) args kwargs = Inl (TypeError (type_name d @ '' object is not callable''))"

text \<open>\<^verbatim>\<open>obj.__name__\<close>, which neither plain data nor a callable object has.\<close>

fun py_name :: "pyobj \<Rightarrow> string option" where
  "py_name (Function f) = Some (func_name f)"
| "py_name (Class k) = Some (class_name k)"
| "py_name (Callable_Object cls body) = None"
| "py_name (Data d) = None"

text \<open>The name of the type of an object, as the message of an \<^verbatim>\<open>AttributeError\<close>
  quotes it.\<close>

fun obj_type :: "pyobj \<Rightarrow> string" where
  "obj_type (Data d) = type_name d"
| "obj_type (Function f) = ''function''"
| "obj_type (Class k) = ''type''"
| "obj_type (Callable_Object cls body) = cls"

text \<open>\<^verbatim>\<open>bool(cls)\<close>: the metaclass's \<^verbatim>\<open>__bool__\<close> if it has one, else true.\<close>

definition class_bool :: "pyclass \<Rightarrow> exn + bool" where
  "class_bool k = (case meta_bool k of Some b \<Rightarrow> b | None \<Rightarrow> Inr True)"

text \<open>
  What ordinary lookup finds for \<^verbatim>\<open>cls.arg\<close>: the name and the docstring of the
  class, the methods its metaclass defines, which are bound to the class, and the
  attributes the class has from its bases, from \<^verbatim>\<open>object\<close> and from \<^verbatim>\<open>type\<close>
  (\<^verbatim>\<open>__mro__\<close>, \<^verbatim>\<open>__dict__\<close>, \<^verbatim>\<open>__class__\<close> and so on).  These last are not in the
  source; \<open>inherited\<close> stands for them.
\<close>

definition class_lookup :: "(string \<Rightarrow> pydata option) \<Rightarrow> pyclass \<Rightarrow> string \<Rightarrow> pydata option"
  where
  "class_lookup inherited k arg =
     (if arg = ''__name__'' then Some (PyStr (class_name k))
      else if arg = ''__doc__'' then Some (PyStr (class_doc k))
      else if arg = ''__bool__'' \<and> meta_bool k \<noteq> None then Some (Instance ''method'')
      else if arg = ''__getattr__'' \<and> meta_getattr k \<noteq> None then Some (Instance ''method'')
      else inherited arg)"

text \<open>\<^verbatim>\<open>cls.arg\<close>: ordinary lookup first; only for a name it does not find does Python
  call the metaclass's \<^verbatim>\<open>__getattr__\<close>, if there is one.\<close>

definition class_getattr :: "(string \<Rightarrow> pydata option) \<Rightarrow> pyclass \<Rightarrow> string \<Rightarrow> exn + pydata"
  where
  "class_getattr inherited k arg =
     (case class_lookup inherited k arg of
        Some v \<Rightarrow> Inr v
      | None \<Rightarrow>
          (case meta_getattr k of
             Some hook \<Rightarrow> hook arg
           | None \<Rightarrow> Inl (AttributeError
               (''type object '' @ repr (class_name k) @ '' has no attribute '' @ repr arg))))"

section \<open>The stub factory\<close>

text \<open>
  \<^verbatim>\<open>_stub(name, module)\<close>.  \<^verbatim>\<open>stub_version\<close> takes no argument and
  \<^verbatim>\<open>stub_check\<close> exactly one, so a call of another shape is a \<^verbatim>\<open>TypeError\<close>; the
  other stub functions take \<^verbatim>\<open>*args, **kwargs\<close>.
\<close>

definition stub :: "string \<Rightarrow> 'm option \<Rightarrow> pyobj" where
  "stub name module =
     (if endswith name ''_version'' then
        (if module = None then
           Function (Func ''stub_version'' (\<lambda>args kwargs.
             if args = [] \<and> kwargs = []
             then Inr (PyStr (take (length name - 8) name @ '' n/a''))
             else Inl (TypeError ''stub_version() takes 0 positional arguments'')))
         else
           Function (Func ''stub_version'' (\<lambda>args kwargs.
             if args = [] \<and> kwargs = []
             then Inr (PyStr (take (length name - 8) name @ '' unknow''))
             else Inl (TypeError ''stub_version() takes 0 positional arguments''))))
      else if endswith name ''_check'' then
        Function (Func ''stub_check'' (\<lambda>args kwargs.
          if (length args = 1 \<and> kwargs = []) \<or> (args = [] \<and> map fst kwargs = [''arg''])
          then Inr (PyBool False)
          else Inl (TypeError ''stub_check() takes 1 positional argument'')))
      else if endswith name ''_decode'' then
        Function (Func ''stub_decode'' (\<lambda>args kwargs. Inl (DelayedImportError name)))
      else if endswith name ''_encode'' then
        Function (Func ''stub_encode'' (\<lambda>args kwargs. Inl (DelayedImportError name)))
      else if islower name then
        Function (Func ''stub_function'' (\<lambda>args kwargs. Inl (DelayedImportError name)))
      else if endswith name ''Error'' then
        Class (PyClass ''StubError'' ''Stub for imagecodecs.CodecError class.''
                 (\<lambda>args kwargs. Some (DelayedImportError name)) None None)
      else
        (let StubType_getattr = (\<lambda>arg. Inl (DelayedImportError name));
             StubType_bool = (if module = None then Some (Inr False) else None)
         in if isupper name
            then Class (PyClass ''STUB'' ''Stub for imagecodecs.CODEC constants.''
                   (\<lambda>args kwargs. None) StubType_bool (Some StubType_getattr))
            else Class (PyClass ''Stub'' ''Stub for imagecodecs.Codec class.''
                   (\<lambda>args kwargs. None) StubType_bool (Some StubType_getattr))))"

section \<open>The lazy resolver\<close>

text \<open>
  A backend module is the map from its attribute names to their values.  The
  environment says what \<^verbatim>\<open>importlib.import_module\<close> does for a module name (it
  returns the module or raises) and whether \<^verbatim>\<open>from . import _shared\<close> raises.
  The state is the namespace of the package, to which \<^verbatim>\<open>setattr\<close> writes, and the
  log of the calls of \<^verbatim>\<open>import_module\<close>.
\<close>

type_synonym backend = "string \<Rightarrow> pyobj option"

record env =
  import_module :: "string \<Rightarrow> exn + backend"
  import_shared :: "exn option"

record mstate =
  namespace :: "string \<Rightarrow> pyobj option"
  import_log :: "string list"

text \<open>The \<^verbatim>\<open>try\<close> statement of \<^verbatim>\<open>__getattr__\<close>: the value of \<^verbatim>\<open>module\<close> after
  it, or the exception that leaves it.\<close>

definition load_module :: "env \<Rightarrow> string \<Rightarrow> exn + backend option" where
  "load_module env module_name =
     (case import_module env (''._'' @ module_name) of
        Inr module \<Rightarrow> Inr (Some module)
      | Inl e \<Rightarrow>
          if is_ImportError e then Inr None
          else if is_AttributeError e then
            (case import_shared env of Some e' \<Rightarrow> Inl e' | None \<Rightarrow> Inr None)
          else Inl e)"

text \<open>\<^verbatim>\<open>getattr(module, n, None)\<close>; \<^verbatim>\<open>None\<close> itself has no attribute with the
  name of a registered attribute.\<close>

definition getattr_default :: "backend option \<Rightarrow> string \<Rightarrow> pyobj" where
  "getattr_default module n =
     (case module of
        None \<Rightarrow> Data PyNone
      | Some m \<Rightarrow> (case m n of Some attr \<Rightarrow> attr | None \<Rightarrow> Data PyNone))"

text \<open>The loop \<^verbatim>\<open>for n in _API[module_]\<close>.  An item that is a tuple makes
  \<^verbatim>\<open>getattr\<close> raise.\<close>

fun attach :: "backend option \<Rightarrow> entry list \<Rightarrow> mstate \<Rightarrow> exn option \<times> mstate" where
  "attach module [] st = (None, st)"
| "attach module (Name n # ns) st =
     (if n \<in> fst ` set COMPATIBILITY then attach module ns st
      else
        (let attr = getattr_default module n;
             attr = (if attr = Data PyNone then stub n module else attr)
         in attach module ns (st\<lparr>namespace := (namespace st)(n \<mapsto> attr)\<rparr>)))"
| "attach module (Group g # ns) st =
     (Some (TypeError ''attribute name must be string, not tuple''), st)"

text \<open>
  \<^verbatim>\<open>__getattr__(name)\<close>; \<open>name0\<close> is the name as passed (\<^verbatim>\<open>name_\<close> in the source).
  The last \<^verbatim>\<open>getattr(imagecodecs, name)\<close> finds what the loop has set; were the
  name missing, Python would enter \<^verbatim>\<open>__getattr__\<close> again with the same name, without
  end, which it reports as \<^verbatim>\<open>RecursionError\<close>.
\<close>

definition dunder_getattr :: "env \<Rightarrow> mstate \<Rightarrow> string \<Rightarrow> (exn + pyobj) \<times> mstate" where
  "dunder_getattr env st name0 =
     (let name = (case map_of COMPATIBILITY name0 of Some n \<Rightarrow> n | None \<Rightarrow> name0)
      in case map_of (ATTRIBUTES REGISTRY) name of
           None \<Rightarrow>
             (Inl (AttributeError (''module 'imagecodecs' has no attribute '' @ repr name)), st)
         | Some None \<Rightarrow> (Inr (Data PyNone), st)
         | Some (Some module_name) \<Rightarrow>
             (let st1 = st\<lparr>import_log := import_log st @ [''._'' @ module_name]\<rparr>
              in case load_module env module_name of
                   Inl e \<Rightarrow> (Inl e, st1)
                 | Inr module \<Rightarrow>
                     (case map_of (API REGISTRY) (Some module_name) of
                        None \<Rightarrow> (Inl (KeyError (repr module_name)), st1)
                      | Some ns \<Rightarrow>
                          (case attach module ns st1 of
                             (Some e, st2) \<Rightarrow> (Inl e, st2)
                           | (None, st2) \<Rightarrow>
                               (case namespace st2 name of
                                  None \<Rightarrow>
                                    (Inl (RecursionError
                                       ''maximum recursion depth exceeded''), st2)
                                | Some attr \<Rightarrow>
                                    (Inr attr,
                                     if name \<noteq> name0
                                     then st2\<lparr>namespace := (namespace st2)(name0 \<mapsto> attr)\<rparr>
                                     else st2))))))"

text \<open>\<^verbatim>\<open>getattr(imagecodecs, name)\<close> from outside: the namespace first, then
  \<^verbatim>\<open>__getattr__\<close>.\<close>

definition module_getattr :: "env \<Rightarrow> mstate \<Rightarrow> string \<Rightarrow> (exn + pyobj) \<times> mstate" where
  "module_getattr env st name =
     (case namespace st name of
        Some attr \<Rightarrow> (Inr attr, st)
      | None \<Rightarrow> dunder_getattr env st name)"

section \<open>The none codec\<close>

text \<open>
  \<^verbatim>\<open>def none_decode(data, *args, **kwargs)\<close> and \<^verbatim>\<open>none_encode\<close> alike: \<^verbatim>\<open>data\<close>
  is the first positional argument or the keyword argument of that name.
\<close>

definition bind_data :: "string \<Rightarrow> pydata list \<Rightarrow> kwargs \<Rightarrow> exn + pydata" where
  "bind_data fname args kwargs =
     (case args of
        data # rest \<Rightarrow>
          if ''data'' \<in> fst ` set kwargs
          then Inl (TypeError (fname @ ''() got multiple values for argument 'data'' @ [CHR 0x27]))
          else Inr data
      | [] \<Rightarrow>
          (case map_of kwargs ''data'' of
             Some data \<Rightarrow> Inr data
           | None \<Rightarrow>
               Inl (TypeError
                 (fname @ ''() missing 1 required positional argument: 'data'' @ [CHR 0x27]))))"

definition none_decode :: func where
  "none_decode = Func ''none_decode'' (\<lambda>args kwargs.
     case bind_data ''none_decode'' args kwargs of
       Inl e \<Rightarrow> Inl e
     | Inr data \<Rightarrow> Inr data)"

definition none_encode :: func where
  "none_encode = Func ''none_encode'' (\<lambda>args kwargs.
     case bind_data ''none_encode'' args kwargs of
       Inl e \<Rightarrow> Inl e
     | Inr data \<Rightarrow> Inr data)"

definition none_version :: func where
  "none_version = Func ''none_version'' (\<lambda>args kwargs.
     if args = [] \<and> kwargs = [] then Inr (PyStr [])
     else Inl (TypeError ''none_version() takes 0 positional arguments''))"

text \<open>The part of the package's own namespace that the none codec defines.\<close>

definition none_namespace :: "string \<Rightarrow> pyobj option" where
  "none_namespace =
     [''NONE'' \<mapsto> Data (PyBool True),
      ''none_version'' \<mapsto> Function none_version,
      ''none_decode'' \<mapsto> Function none_decode,
      ''none_encode'' \<mapsto> Function none_encode]"

section \<open>Generic read\<close>

text \<open>The dictionary \<^verbatim>\<open>codecs\<close> inside \<^verbatim>\<open>_imcodecs\<close>, and the map from file
  extension to codec name built from it.\<close>

definition imcodecs_table :: "(string \<times> string list) list" where
  "imcodecs_table = [
    (''apng'', [''apng'']),
    (''avif'', [''avif'', ''avifs'']),
    (''brunsli'', [''brn'']),
    (''gif'', [''gif'']),
    (''heif'', [''heif'', ''heic'', ''heifs'', ''heics'', ''hif'']),
    (''jpeg'', [''jpg'', ''jpeg'', ''jpe'', ''jfif'', ''jif'', ''ljpeg'']),
    (''jpeg2k'', [''j2k'', ''jp2'', ''j2c'', ''jpc'', ''jpx'', ''jpf'']),
    (''jpegls'', [''jls'']),
    (''jpegxl'', [''jxl'']),
    (''jpegxr'', [''jxr'', ''hdp'', ''wdp'']),
    (''lerc'', [''lerc1'', ''lerc2'']),
    (''numpy'', [''npy'', ''npz'']),
    (''png'', [''png'']),
    (''qoi'', [''qoi'']),
    (''rgbe'', [''hdr'', ''rgbe'', ''pic'']),
    (''tiff'', [''tif'', ''tiff'', ''ptif'', ''ptiff'', ''tf8'', ''tf2'', ''btf'']),
    (''webp'', [''webp'']),
    (''zfp'', [''zfp''])]"

definition imcodecs :: "(string \<times> string) list" where
  "imcodecs =
     fold (\<lambda>(ext, codec). AList.update ext codec)
       (concat (map (\<lambda>(codec, exts). map (\<lambda>ext. (ext, codec)) exts) imcodecs_table)) []"

text \<open>
  An item of the list \<^verbatim>\<open>codecs\<close> is a codec name or an object for which
  \<^verbatim>\<open>callable\<close> holds: one that has a \<^verbatim>\<open>__name__\<close> (a function; a class behaves as
  the function that builds its instance), or a callable object, which has none.  The
  argument \<^verbatim>\<open>codec\<close> of \<^verbatim>\<open>imread\<close> is \<^verbatim>\<open>None\<close>, one such item, or a list or tuple of
  them.
\<close>

datatype candidate =
    Codec string
  | Callable func
  | Nameless_Callable string "pydata list \<Rightarrow> kwargs \<Rightarrow> exn + pydata"

datatype codec_hint = Single candidate | Several "candidate list"

definition fallback_codecs :: "string list" where
  "fallback_codecs =
     [''tiff'', ''apng'', ''png'', ''gif'', ''webp'', ''jpeg8'', ''jpeg12'', ''jpegsof3'',
      ''jpeg2k'', ''jpegls'', ''jpegxr'', ''jpegxl'', ''avif'', ''heif'', ''ljpeg'', ''zfp'',
      ''lerc'', ''rgbe'', ''numpy'']"

text \<open>
  Lines 757 to 806 of \<^verbatim>\<open>imread\<close>: the list \<^verbatim>\<open>codecs\<close>.  \<open>ext\<close> is the value of
  \<^verbatim>\<open>ext\<close> in the source: the lower-cased extension of \<^verbatim>\<open>fileobj\<close> when that is a
  path, \<^verbatim>\<open>None\<close> otherwise.  The generator passed to \<^verbatim>\<open>extend\<close> tests
  \<^verbatim>\<open>c not in codecs\<close> against the list as it grows.
\<close>

definition imread_codecs :: "string option \<Rightarrow> codec_hint option \<Rightarrow> candidate list" where
  "imread_codecs ext codec =
     (case codec of
        None \<Rightarrow>
          (let codecs =
                 (case ext of
                    None \<Rightarrow> []
                  | Some e \<Rightarrow>
                      (case map_of imcodecs e of
                         None \<Rightarrow> []
                       | Some codec \<Rightarrow>
                           if codec = ''jpeg''
                           then [''jpeg8'', ''jpeg12'', ''jpegsof3'', ''ljpeg'']
                           else [codec]))
           in map Codec
                (fold (\<lambda>c codecs. if c \<notin> set codecs then codecs @ [c] else codecs)
                   fallback_codecs codecs))
      | Some hint \<Rightarrow>
          map (\<lambda>c. case c of
                 Codec s \<Rightarrow>
                   (let c = lower s
                    in Codec (case map_of imcodecs c of Some codec \<Rightarrow> codec | None \<Rightarrow> c))
               | Callable f \<Rightarrow> Callable f
               | Nameless_Callable cls body \<Rightarrow> Nameless_Callable cls body)
            (case hint of Single c \<Rightarrow> [c] | Several cs \<Rightarrow> cs))"

text \<open>The variables of the trial loop, with the state of the package.\<close>

record trial =
  exceptions :: "string list"
  image :: pydata
  func :: "pyobj option"
  modstate :: mstate

datatype flow = Break trial | Continue trial | Raised exn

text \<open>The exception that reading \<^verbatim>\<open>func.__name__\<close> raises where \<^verbatim>\<open>func\<close> has no
  such attribute.\<close>

definition no_name_error :: "pyobj \<Rightarrow> exn" where
  "no_name_error f =
     AttributeError
       (CHR 0x27 # obj_type f @ [CHR 0x27] @ '' object has no attribute '__name__''
          @ [CHR 0x27])"

text \<open>
  The \<^verbatim>\<open>except\<close> clauses of the second \<^verbatim>\<open>try\<close> statement.  Reading
  \<^verbatim>\<open>func.__name__\<close> happens inside the handler, so where \<^verbatim>\<open>func\<close> has no such
  attribute the \<^verbatim>\<open>AttributeError\<close> leaves \<^verbatim>\<open>imread\<close>.
\<close>

definition except_clauses :: "pyobj \<Rightarrow> exn \<Rightarrow> trial \<Rightarrow> flow" where
  "except_clauses f exc t =
     (if is_DelayedImportError exc then Continue t
      else
        (case py_name f of
           None \<Rightarrow> Raised (no_name_error f)
         | Some name \<Rightarrow>
             Continue (t\<lparr>exceptions := exceptions t @ [upper name @ '': '' @ str_exn exc]\<rparr>)))"

text \<open>The second \<^verbatim>\<open>try\<close> statement, lines 841 to 851, once \<^verbatim>\<open>func\<close> is known.\<close>

definition try_decode :: "pydata \<Rightarrow> kwargs \<Rightarrow> pyobj \<Rightarrow> trial \<Rightarrow> flow" where
  "try_decode data kwargs f t0 =
     (let t = t0\<lparr>func := Some f\<rparr>
      in case py_call f [data] kwargs of
           Inl exc \<Rightarrow> except_clauses f exc t
         | Inr img \<Rightarrow>
             (let t = t\<lparr>image := img\<rparr>
              in case dtype_of img of
                   None \<Rightarrow>
                     except_clauses f
                       (AttributeError
                          (repr (type_name img) @ '' object has no attribute 'dtype'' @ [CHR 0x27]))
                       t
                 | Some dtype \<Rightarrow>
                     if dtype = ''object''
                     then except_clauses f (ValueError ''failed'') (t\<lparr>image := PyNone\<rparr>)
                     else Break t))"

text \<open>One round of the loop \<^verbatim>\<open>for codec in codecs\<close>, lines 832 to 853.  The reset of
  the read position of a memory-mapped source is left out: it does not change the
  bytes a decoder is given.\<close>

fun try_codec :: "env \<Rightarrow> pydata \<Rightarrow> kwargs \<Rightarrow> candidate \<Rightarrow> trial \<Rightarrow> flow" where
  "try_codec env data kwargs (Callable f) t = try_decode data kwargs (Function f) t"
| "try_codec env data kwargs (Nameless_Callable cls body) t =
     try_decode data kwargs (Callable_Object cls body) t"
| "try_codec env data kwargs (Codec codec) t =
     (case module_getattr env (modstate t) (codec @ ''_decode'') of
        (Inl exc, st) \<Rightarrow>
          Continue (t\<lparr>exceptions := exceptions t @ [upper (repr codec) @ '': '' @ str_exn exc],
                      modstate := st\<rparr>)
      | (Inr f, st) \<Rightarrow> try_decode data kwargs f (t\<lparr>modstate := st\<rparr>))"

fun trial_loop :: "env \<Rightarrow> pydata \<Rightarrow> kwargs \<Rightarrow> candidate list \<Rightarrow> trial \<Rightarrow> exn + trial" where
  "trial_loop env data kwargs [] t = Inr t"
| "trial_loop env data kwargs (codec # codecs) t =
     (case try_codec env data kwargs codec t of
        Break t' \<Rightarrow> Inr t'
      | Continue t' \<Rightarrow> trial_loop env data kwargs codecs t'
      | Raised e \<Rightarrow> Inl e)"

text \<open>What \<^verbatim>\<open>imread\<close> returns: the image, or the image and the function that decoded
  it when \<^verbatim>\<open>return_codec\<close> is set.\<close>

datatype imread_result = Image pydata | ImageCodec pydata pyobj

text \<open>Lines 830, 831 and 858 to 863: the end of \<^verbatim>\<open>imread\<close>, from the list of
  candidates on.\<close>

definition imread_from :: "env \<Rightarrow> mstate \<Rightarrow> pydata \<Rightarrow> candidate list \<Rightarrow> bool \<Rightarrow> kwargs
    \<Rightarrow> exn + imread_result" where
  "imread_from env st data codecs return_codec kwargs =
     (case trial_loop env data kwargs codecs
             \<lparr>exceptions = [], image = PyNone, func = None, modstate = st\<rparr> of
        Inl e \<Rightarrow> Inl e
      | Inr t \<Rightarrow>
          if image t = PyNone then Inl (ValueError (join [CHR 0x0A] (exceptions t)))
          else if return_codec then
            (case func t of
               Some f \<Rightarrow> Inr (ImageCodec (image t) f)
             | None \<Rightarrow> Inl (OtherException ''UnboundLocalError'' ''func''))
          else Inr (Image (image t)))"

text \<open>\<^verbatim>\<open>imread(fileobj, codec, memmap, return_codec, **kwargs)\<close>, where \<open>data\<close> is
  what the source reads from \<^verbatim>\<open>fileobj\<close> and \<open>ext\<close> its extension.\<close>

definition imread :: "env \<Rightarrow> mstate \<Rightarrow> pydata \<Rightarrow> string option \<Rightarrow> codec_hint option \<Rightarrow> bool
    \<Rightarrow> kwargs \<Rightarrow> exn + imread_result" where
  "imread env st data ext codec return_codec kwargs =
     imread_from env st data (imread_codecs ext codec) return_codec kwargs"

section \<open>Closed form of the registry\<close>

text \<open>
  What \<^verbatim>\<open>_register_codecs\<close> makes of one item of \<^verbatim>\<open>_API\<close>: the final list of the
  module, the names it writes to \<^verbatim>\<open>_ATTRIBUTES\<close> (none if the module's tuple is
  empty), and the owner of a name, which is the last module that wrote it.
\<close>

definition group_attributes :: "string list \<Rightarrow> entry list" where
  "group_attributes g = concat (map (\<lambda>c. map Name (codec_attributes c)) g)"

definition expand :: "string option \<Rightarrow> entry list \<Rightarrow> entry list" where
  "expand m es =
     (case find_group es of
        Some g \<Rightarrow> remove1 (Group g) es @ group_attributes g
      | None \<Rightarrow> es @ (case m of Some c \<Rightarrow> map Name (codec_attributes c) | None \<Rightarrow> []))"

definition registered :: "string option \<Rightarrow> entry list \<Rightarrow> string list" where
  "registered m es = (if find_group es = Some [] then [] else names_of (expand m es))"

definition registers_ok :: "string option \<Rightarrow> entry list \<Rightarrow> bool" where
  "registers_ok m es = (find_group es \<noteq> None \<or> m \<noteq> None)"

fun owner_scan :: "(string option \<times> entry list) list \<Rightarrow> string \<Rightarrow> string option option
    \<Rightarrow> string option option" where
  "owner_scan [] n acc = acc"
| "owner_scan ((m, es) # rest) n acc =
     owner_scan rest n (if n \<in> set (registered m es) then Some m else acc)"

text \<open>The tuples of a module's list.\<close>

fun groups_of :: "entry list \<Rightarrow> string list list" where
  "groups_of [] = []"
| "groups_of (Name n # es) = groups_of es"
| "groups_of (Group g # es) = g # groups_of es"

section \<open>What the resolver attaches\<close>

text \<open>
  The value the loop of \<^verbatim>\<open>__getattr__\<close> sets for the name \<open>n\<close>: the backend's
  attribute, or the stub where \<^verbatim>\<open>getattr(module, n, None)\<close> is \<^verbatim>\<open>None\<close>.
\<close>

definition attached :: "backend option \<Rightarrow> string \<Rightarrow> pyobj" where
  "attached module n =
     (if getattr_default module n = Data PyNone then stub n module
      else getattr_default module n)"

text \<open>The name \<^verbatim>\<open>__getattr__\<close> works with: \<^verbatim>\<open>_COMPATIBILITY.get(name, name)\<close>.\<close>

definition canonical :: "string \<Rightarrow> string" where
  "canonical name = (case map_of COMPATIBILITY name of Some n \<Rightarrow> n | None \<Rightarrow> name)"

text \<open>An environment in which no backend can be imported, one in which loading a
  backend fails with an \<^verbatim>\<open>OSError\<close>, as a shared library that cannot be loaded
  does, and a package state that holds the none codec and has imported nothing.\<close>

definition no_backends :: env where
  "no_backends =
     \<lparr>import_module = (\<lambda>m. Inl (ImportError (''No module named '' @ repr m))),
      import_shared = None\<rparr>"

definition broken_backends :: env where
  "broken_backends =
     \<lparr>import_module = (\<lambda>m. Inl (OtherException ''OSError'' ''cannot load library'')),
      import_shared = None\<rparr>"

definition fresh_state :: mstate where
  "fresh_state = \<lparr>namespace = none_namespace, import_log = []\<rparr>"

section \<open>Outcomes of the trial loop\<close>

text \<open>
  The function a candidate stands for: the candidate itself if it is callable, else the
  attribute \<^verbatim>\<open><codec>_decode\<close> of the package (lines 833 to 837).
\<close>

fun resolve_decode :: "env \<Rightarrow> candidate \<Rightarrow> mstate \<Rightarrow> (exn + pyobj) \<times> mstate" where
  "resolve_decode env (Callable f) st = (Inr (Function f), st)"
| "resolve_decode env (Nameless_Callable cls body) st = (Inr (Callable_Object cls body), st)"
| "resolve_decode env (Codec codec) st = module_getattr env st (codec @ ''_decode'')"

text \<open>
  A decode function fails on the data when its call raises or returns an array of dtype
  \<^verbatim>\<open>object\<close>.  Every such failure but a \<^verbatim>\<open>DelayedImportError\<close> is recorded
  under the \<^verbatim>\<open>__name__\<close> of the function, so the function must have one.  The
  line \<^verbatim>\<open>imread\<close> records for a function that has a name: none for a
  \<^verbatim>\<open>DelayedImportError\<close> and none for a result of another dtype than
  \<^verbatim>\<open>object\<close>, else the upper-cased name of the function, a colon and the message.
\<close>

definition decode_fails :: "pydata \<Rightarrow> kwargs \<Rightarrow> pyobj \<Rightarrow> bool" where
  "decode_fails data kwargs f =
     (case py_call f [data] kwargs of
        Inl exc \<Rightarrow> is_DelayedImportError exc \<or> py_name f \<noteq> None
      | Inr img \<Rightarrow> dtype_of img = Some ''object'' \<and> py_name f \<noteq> None)"

definition decode_diagnostic :: "pydata \<Rightarrow> kwargs \<Rightarrow> pyobj \<Rightarrow> string list" where
  "decode_diagnostic data kwargs f =
     (let line = (\<lambda>exc. case py_name f of
                           None \<Rightarrow> []
                         | Some name \<Rightarrow> [upper name @ '': '' @ str_exn exc])
      in case py_call f [data] kwargs of
           Inl exc \<Rightarrow> if is_DelayedImportError exc then [] else line exc
         | Inr img \<Rightarrow>
             (case dtype_of img of
                None \<Rightarrow>
                  line (AttributeError
                          (repr (type_name img) @ '' object has no attribute 'dtype''
                             @ [CHR 0x27]))
              | Some dtype \<Rightarrow> if dtype = ''object'' then line (ValueError ''failed'') else []))"

text \<open>
  One candidate, tried in the package state \<open>st\<close>: whether it fails (its decode
  function cannot be resolved, or fails on the data), the lines recorded for it, and the
  package state it leaves to the next candidate.
\<close>

definition candidate_fails :: "env \<Rightarrow> pydata \<Rightarrow> kwargs \<Rightarrow> candidate \<Rightarrow> mstate \<Rightarrow> bool" where
  "candidate_fails env data kwargs c st =
     (case resolve_decode env c st of
        (Inl exc, st') \<Rightarrow> True
      | (Inr f, st') \<Rightarrow> decode_fails data kwargs f)"

definition candidate_lines :: "env \<Rightarrow> pydata \<Rightarrow> kwargs \<Rightarrow> candidate \<Rightarrow> mstate \<Rightarrow> string list"
  where
  "candidate_lines env data kwargs c st =
     (case resolve_decode env c st of
        (Inl exc, st') \<Rightarrow>
          (case c of
             Codec codec \<Rightarrow> [upper (repr codec) @ '': '' @ str_exn exc]
           | Callable f \<Rightarrow> []
           | Nameless_Callable cls body \<Rightarrow> [])
      | (Inr f, st') \<Rightarrow> decode_diagnostic data kwargs f)"

definition state_after :: "env \<Rightarrow> candidate \<Rightarrow> mstate \<Rightarrow> mstate" where
  "state_after env c st = snd (resolve_decode env c st)"

text \<open>Every candidate of the list fails, each tried in the package state its
  predecessors leave; and the lines recorded for the list, in the order of the
  candidates.\<close>

fun all_fail :: "env \<Rightarrow> pydata \<Rightarrow> kwargs \<Rightarrow> candidate list \<Rightarrow> mstate \<Rightarrow> bool" where
  "all_fail env data kwargs [] st = True"
| "all_fail env data kwargs (c # cs) st =
     (candidate_fails env data kwargs c st
      \<and> all_fail env data kwargs cs (state_after env c st))"

fun diagnostics :: "env \<Rightarrow> pydata \<Rightarrow> kwargs \<Rightarrow> candidate list \<Rightarrow> mstate \<Rightarrow> string list" where
  "diagnostics env data kwargs [] st = []"
| "diagnostics env data kwargs (c # cs) st =
     candidate_lines env data kwargs c st
     @ diagnostics env data kwargs cs (state_after env c st)"

text \<open>A decoder that rejects the data, and the callable object
  \<^verbatim>\<open>functools.partial(decode)\<close> made of it.\<close>

definition failing_decode :: "pydata list \<Rightarrow> kwargs \<Rightarrow> exn + pydata" where
  "failing_decode args kwargs = Inl (ValueError ''not an image'')"

definition failing_partial :: pyobj where
  "failing_partial = Callable_Object ''functools.partial'' failing_decode"

text \<open>The variables of \<^verbatim>\<open>imread\<close> before the loop.\<close>

definition initial_trial :: "mstate \<Rightarrow> trial" where
  "initial_trial st = \<lparr>exceptions = [], image = PyNone, func = None, modstate = st\<rparr>"

section \<open>Facts about strings\<close>

lemma endswith_set: "endswith s suffix \<Longrightarrow> set suffix \<subseteq> set s"
proof -
  assume "endswith s suffix"
  then have "drop (length s - length suffix) s = suffix" by (simp add: endswith_def)
  then have "set suffix = set (drop (length s - length suffix) s)" by simp
  then show ?thesis using set_drop_subset by metis
qed

lemma endswith_last:
  assumes "endswith s suffix" and "suffix \<noteq> []"
  shows "last s = last suffix"
proof -
  have d: "drop (length s - length suffix) s = suffix" and l: "length suffix \<le> length s"
    using assms(1) by (simp_all add: endswith_def)
  have "length s - length suffix < length s" using l assms(2) by (cases suffix) auto
  then have "last (drop (length s - length suffix) s) = last s" by (rule last_drop)
  then show ?thesis by (simp add: d)
qed

lemma endswith_same_length:
  "endswith s a \<Longrightarrow> endswith s b \<Longrightarrow> length a = length b \<Longrightarrow> a = b"
  by (auto simp: endswith_def)

lemma isupper_no_lower_suffix:
  assumes "isupper name" and "c \<in> set suffix" and "is_lower_char c"
  shows "\<not> endswith name suffix"
proof
  assume "endswith name suffix"
  then have "c \<in> set name" using endswith_set assms(2) by blast
  with assms(1,3) show False by (auto simp: isupper_def)
qed

lemma isupper_not_islower: "isupper name \<Longrightarrow> \<not> islower name"
  by (auto simp: isupper_def islower_def)

lemma isupper_suffixes:
  assumes "isupper name"
  shows "\<not> endswith name ''_version''" "\<not> endswith name ''_check''"
    "\<not> endswith name ''_decode''" "\<not> endswith name ''_encode''" "\<not> endswith name ''Error''"
proof -
  have l: "is_lower_char (CHR ''e'')" "is_lower_char (CHR ''n'')" "is_lower_char (CHR ''k'')"
    "is_lower_char (CHR ''r'')"
    by (simp_all add: is_lower_char_def)
  show "\<not> endswith name ''_version''"
    by (rule isupper_no_lower_suffix [OF assms _ l(2)]) simp
  show "\<not> endswith name ''_check''"
    by (rule isupper_no_lower_suffix [OF assms _ l(3)]) simp
  show "\<not> endswith name ''_decode''"
    by (rule isupper_no_lower_suffix [OF assms _ l(1)]) simp
  show "\<not> endswith name ''_encode''"
    by (rule isupper_no_lower_suffix [OF assms _ l(1)]) simp
  show "\<not> endswith name ''Error''"
    by (rule isupper_no_lower_suffix [OF assms _ l(4)]) simp
qed

lemma code_suffixes:
  assumes "endswith name ''_decode'' \<or> endswith name ''_encode''"
  shows "\<not> endswith name ''_version''" and "\<not> endswith name ''_check''"
proof -
  have e: "last name = CHR ''e''"
    using assms endswith_last [of name "''_decode''"] endswith_last [of name "''_encode''"]
    by auto
  show "\<not> endswith name ''_version''"
    using e endswith_last [of name "''_version''"] by auto
  show "\<not> endswith name ''_check''"
    using e endswith_last [of name "''_check''"] by auto
qed

lemma repr_plain:
  assumes "\<forall>c \<in> set s. is_lower_char c \<or> is_upper_char c \<or> c = CHR ''_''
             \<or> (CHR ''0'' \<le> c \<and> c \<le> CHR ''9'')"
  shows "repr s = CHR 0x27 # s @ [CHR 0x27]"
proof -
  have plain: "repr_char (CHR 0x27) c = [c]" if "c \<in> set s" for c
  proof -
    from assms that have k: "is_lower_char c \<or> is_upper_char c \<or> c = CHR ''_''
        \<or> (CHR ''0'' \<le> c \<and> c \<le> CHR ''9'')" by blast
    then have r: "CHR 0x30 \<le> c \<and> c \<le> CHR 0x7A \<and> c \<noteq> CHR 0x5C"
      by (auto simp: is_lower_char_def is_upper_char_def less_eq_char_def)
    then show ?thesis
      by (auto simp: repr_char_def less_eq_char_def less_char_def)
  qed
  have q: "CHR 0x27 \<notin> set s"
  proof
    assume "CHR 0x27 \<in> set s"
    with assms have "is_lower_char (CHR 0x27) \<or> is_upper_char (CHR 0x27) \<or> CHR 0x27 = CHR ''_''
        \<or> (CHR ''0'' \<le> CHR 0x27 \<and> CHR 0x27 \<le> CHR ''9'')" by blast
    then show False by (simp add: is_lower_char_def is_upper_char_def)
  qed
  have "concat (map (repr_char (CHR 0x27)) s) = s"
    using plain by (induction s) auto
  then show ?thesis using q by (simp add: repr_def Let_def)
qed

section \<open>The stub factory: deferred unavailability\<close>

lemma stub_decode_encode:
  assumes "endswith name ''_decode'' \<or> endswith name ''_encode''"
  shows "\<exists>f. stub name module = Function f
           \<and> (\<forall>args kwargs. func_body f args kwargs = Inl (DelayedImportError name))"
  using assms code_suffixes [OF assms] by (auto simp: stub_def)

text \<open>
  Claim C2.  For a name ending in \<^verbatim>\<open>_version\<close>, calling the stub made when the backend
  never bound (\<^verbatim>\<open>module is None\<close>) returns the codec name followed by \<^verbatim>\<open> n/a\<close>.
  Calling the stub made for a backend that bound without the attribute returns the
  codec name followed by \<^verbatim>\<open> unknow\<close>, which is not the text \<^verbatim>\<open> unknown\<close>.
\<close>

theorem stub_version_text:
  assumes "endswith name ''_version''"
  shows "py_call (stub name None) [] [] = Inr (PyStr (take (length name - 8) name @ '' n/a''))
       \<and> py_call (stub name (Some m)) [] []
           = Inr (PyStr (take (length name - 8) name @ '' unknow''))
       \<and> py_call (stub name (Some m)) [] []
           \<noteq> Inr (PyStr (take (length name - 8) name @ '' unknown''))"
  using assms by (simp add: stub_def)

theorem stub_version_text_witness:
  "endswith ''aec_version'' ''_version''
     \<and> py_call (stub ''aec_version'' (None :: backend option)) [] [] = Inr (PyStr ''aec n/a'')
     \<and> py_call (stub ''aec_version'' (Some (\<lambda>n. None) :: backend option)) [] []
         = Inr (PyStr ''aec unknow'')
     \<and> py_call (stub ''aec_version'' (Some (\<lambda>n. None) :: backend option)) [] []
         \<noteq> Inr (PyStr ''aec unknown'')"
proof -
  have e: "endswith ''aec_version'' ''_version''" by (simp add: endswith_def)
  show ?thesis
    using e stub_version_text [OF e, where ?'a = backend and m = "\<lambda>n. None"] by simp
qed

text \<open>
  Claim C7, amended.  For an all-uppercase name whose backend never bound, the stub is
  the class \<^verbatim>\<open>STUB\<close>.  Its truth value is computed without raising and is false.
  Accessing an attribute that ordinary lookup does not find on the class, which is any
  name other than \<^verbatim>\<open>__name__\<close>, \<^verbatim>\<open>__doc__\<close>, \<^verbatim>\<open>__bool__\<close>, \<^verbatim>\<open>__getattr__\<close> and
  the attributes a class has from \<^verbatim>\<open>object\<close> and \<^verbatim>\<open>type\<close>, raises
  \<^verbatim>\<open>DelayedImportError\<close> built from the name of the flag.  Accessing an attribute
  that ordinary lookup finds returns its value and does not raise: \<^verbatim>\<open>__name__\<close> is
  \<^verbatim>\<open>STUB\<close> and \<^verbatim>\<open>__doc__\<close> the docstring of the class.
\<close>

theorem stub_flag_unbound:
  assumes "isupper name"
  shows "\<exists>k. stub name None = Class k \<and> class_name k = ''STUB''
           \<and> class_bool k = Inr False
           \<and> (\<forall>inherited arg.
                 class_lookup inherited k arg = None
                 \<longleftrightarrow> arg \<notin> {''__name__'', ''__doc__'', ''__bool__'', ''__getattr__''}
                     \<and> inherited arg = None)
           \<and> (\<forall>inherited arg.
                 class_lookup inherited k arg = None
                 \<longrightarrow> class_getattr inherited k arg = Inl (DelayedImportError name))
           \<and> (\<forall>inherited arg v.
                 class_lookup inherited k arg = Some v
                 \<longrightarrow> class_getattr inherited k arg = Inr v)
           \<and> (\<forall>inherited. class_getattr inherited k ''__name__'' = Inr (PyStr ''STUB''))
           \<and> (\<forall>inherited. class_getattr inherited k ''__doc__''
                 = Inr (PyStr ''Stub for imagecodecs.CODEC constants.''))"
proof -
  let ?k = "PyClass ''STUB'' ''Stub for imagecodecs.CODEC constants.''
              (\<lambda>args kwargs. None) (Some (Inr False))
              (Some (\<lambda>arg. Inl (DelayedImportError name)))"
  have s: "stub name None = Class ?k"
    using assms isupper_suffixes [OF assms] isupper_not_islower [OF assms]
    by (simp add: stub_def)
  have n: "class_name ?k = ''STUB''" by simp
  have b: "class_bool ?k = Inr False" by (simp add: class_bool_def)
  have l: "\<forall>inherited arg.
             class_lookup inherited ?k arg = None
             \<longleftrightarrow> arg \<notin> {''__name__'', ''__doc__'', ''__bool__'', ''__getattr__''}
                 \<and> inherited arg = None"
    by (simp add: class_lookup_def)
  have h: "\<forall>inherited arg.
             class_lookup inherited ?k arg = None
             \<longrightarrow> class_getattr inherited ?k arg = Inl (DelayedImportError name)"
    by (simp add: class_getattr_def)
  have v: "\<forall>inherited arg v.
             class_lookup inherited ?k arg = Some v
             \<longrightarrow> class_getattr inherited ?k arg = Inr v"
    by (simp add: class_getattr_def)
  have nm: "\<forall>inherited. class_getattr inherited ?k ''__name__'' = Inr (PyStr ''STUB'')"
    by (simp add: class_getattr_def class_lookup_def)
  have dc: "\<forall>inherited. class_getattr inherited ?k ''__doc__''
              = Inr (PyStr ''Stub for imagecodecs.CODEC constants.'')"
    by (simp add: class_getattr_def class_lookup_def)
  from s n b l h v nm dc show ?thesis by (intro exI [of _ ?k] conjI)
qed

theorem stub_flag_unbound_witness:
  "isupper ''AEC''
     \<and> (\<exists>k. stub ''AEC'' (None :: backend option) = Class k \<and> class_name k = ''STUB''
           \<and> class_bool k = Inr False
           \<and> class_lookup (Map.empty(''__mro__'' \<mapsto> Instance ''tuple'')) k ''shape'' = None
           \<and> class_getattr (Map.empty(''__mro__'' \<mapsto> Instance ''tuple'')) k ''shape''
               = Inl (DelayedImportError ''AEC'')
           \<and> class_getattr (Map.empty(''__mro__'' \<mapsto> Instance ''tuple'')) k ''__mro__''
               = Inr (Instance ''tuple'')
           \<and> class_getattr (Map.empty(''__mro__'' \<mapsto> Instance ''tuple'')) k ''__name__''
               = Inr (PyStr ''STUB''))"
proof -
  let ?i = "Map.empty(''__mro__'' \<mapsto> Instance ''tuple'')"
  have u: "isupper ''AEC''"
    by (simp add: isupper_def is_upper_char_def is_lower_char_def)
  obtain k where s: "stub ''AEC'' (None :: backend option) = Class k"
    and n: "class_name k = ''STUB''" and b: "class_bool k = Inr False"
    and l: "\<forall>inherited arg.
              class_lookup inherited k arg = None
              \<longleftrightarrow> arg \<notin> {''__name__'', ''__doc__'', ''__bool__'', ''__getattr__''}
                  \<and> inherited arg = None"
    and h: "\<forall>inherited arg.
              class_lookup inherited k arg = None
              \<longrightarrow> class_getattr inherited k arg = Inl (DelayedImportError ''AEC'')"
    and v: "\<forall>inherited arg v.
              class_lookup inherited k arg = Some v
              \<longrightarrow> class_getattr inherited k arg = Inr v"
    and nm: "\<forall>inherited. class_getattr inherited k ''__name__'' = Inr (PyStr ''STUB'')"
    using stub_flag_unbound [OF u, where ?'a = backend] by blast
  have l1: "class_lookup ?i k ''shape'' = None"
    using l [rule_format, of ?i "''shape''"] by simp
  have h1: "class_getattr ?i k ''shape'' = Inl (DelayedImportError ''AEC'')"
    using h [rule_format, OF l1] .
  have l2: "class_lookup ?i k ''__mro__'' \<noteq> None"
    using l [rule_format, of ?i "''__mro__''"] by simp
  have l3: "class_lookup ?i k ''__mro__'' = Some (Instance ''tuple'')"
    using s by (simp add: stub_def isupper_def is_upper_char_def is_lower_char_def
        islower_def endswith_def class_lookup_def split: if_splits)
  have h2: "class_getattr ?i k ''__mro__'' = Inr (Instance ''tuple'')"
    using v [rule_format, OF l3] .
  from u s n b l1 h1 h2 nm [rule_format, of ?i] show ?thesis by blast
qed

text \<open>
  The claim as first stated fails at the attribute \<^verbatim>\<open>__name__\<close> of the stub of the flag
  \<^verbatim>\<open>AEC\<close>: ordinary lookup finds it, so the access returns \<^verbatim>\<open>STUB\<close> and raises
  nothing.
\<close>

theorem stub_flag_unbound_counterexample:
  "stub ''AEC'' (None :: backend option) = Class (the_class (stub ''AEC'' (None :: backend option)))
     \<and> class_getattr Map.empty (the_class (stub ''AEC'' (None :: backend option))) ''__name__''
         = Inr (PyStr ''STUB'')
     \<and> class_getattr Map.empty (the_class (stub ''AEC'' (None :: backend option))) ''__name__''
         \<noteq> Inl (DelayedImportError ''AEC'')"
  by (simp add: stub_def isupper_def is_upper_char_def is_lower_char_def islower_def
      endswith_def class_getattr_def class_lookup_def)

section \<open>The none codec\<close>

text \<open>
  Claim C10.  For the none codec, decoding what encoding returns gives back the input,
  whatever the input is (so its shape and element type are the input's), and whatever
  further positional arguments either call is given.
\<close>

theorem none_roundtrip:
  "\<exists>y. py_call (Function none_encode) (x # args) [] = Inr y
     \<and> py_call (Function none_decode) (y # args') [] = Inr x"
  by (simp add: none_encode_def none_decode_def bind_data_def)

theorem none_roundtrip_witness:
  "\<exists>y. py_call (Function none_encode) [NDArray ''uint8'' [2, 3] ''abcdef''] [] = Inr y
     \<and> py_call (Function none_decode) [y] [] = Inr (NDArray ''uint8'' [2, 3] ''abcdef'')"
  by (rule none_roundtrip)

section \<open>The registry after registration\<close>

lemma map_of_fold_update:
  "map_of (fold (\<lambda>a. AList.update a v) as al) n = (if n \<in> set as then Some v else map_of al n)"
  by (induction as arbitrary: al) (auto simp: update_conv')

lemma update_middle:
  "k \<notin> fst ` set pre \<Longrightarrow> AList.update k v (pre @ (k, w) # post) = pre @ (k, v) # post"
  by (induction pre) auto

lemma map_of_middle:
  "k \<notin> fst ` set pre \<Longrightarrow> map_of (pre @ (k, w) # post) k = Some w"
  by (induction pre) auto

lemma names_of_append: "names_of (xs @ ys) = names_of xs @ names_of ys"
  by (induction xs rule: names_of.induct) auto

lemma names_of_map_Name: "names_of (map Name ns) = ns"
  by (induction ns) auto

lemma names_of_member: "n \<in> set (names_of es) \<longleftrightarrow> Name n \<in> set es"
  by (induction es rule: names_of.induct) auto

lemma add_codec_Some:
  assumes "map_of (API reg) m = Some cur"
  shows "\<exists>reg'. add_codec m (Some c) reg = Inr reg'
      \<and> API reg' = AList.update m (cur @ map Name (codec_attributes c)) (API reg)
      \<and> (\<forall>n. map_of (ATTRIBUTES reg') n =
            (if n \<in> set (names_of (cur @ map Name (codec_attributes c))) then Some m
             else map_of (ATTRIBUTES reg) n))"
  using assms by (simp add: add_codec_def map_of_fold_update Let_def)

lemma for_each_add_codec:
  assumes "map_of (API reg) m = Some cur"
  shows "\<exists>reg'. for_each (\<lambda>c. add_codec m (Some c)) g reg = Inr reg'
      \<and> API reg' = AList.update m (cur @ group_attributes g) (API reg)
      \<and> (\<forall>n. map_of (ATTRIBUTES reg') n =
            (if g \<noteq> [] \<and> n \<in> set (names_of (cur @ group_attributes g)) then Some m
             else map_of (ATTRIBUTES reg) n))"
  using assms
proof (induction g arbitrary: reg cur)
  case Nil
  then show ?case by (simp add: group_attributes_def update_triv)
next
  case (Cons c g)
  let ?cur1 = "cur @ map Name (codec_attributes c)"
  from add_codec_Some [OF Cons.prems, of c] obtain reg1 where
    r1: "add_codec m (Some c) reg = Inr reg1"
    and a1: "API reg1 = AList.update m ?cur1 (API reg)"
    and t1: "\<And>n. map_of (ATTRIBUTES reg1) n =
            (if n \<in> set (names_of ?cur1) then Some m else map_of (ATTRIBUTES reg) n)"
    by blast
  have l1: "map_of (API reg1) m = Some ?cur1" by (simp add: a1 update_conv')
  from Cons.IH [OF l1] obtain reg' where
    r2: "for_each (\<lambda>c. add_codec m (Some c)) g reg1 = Inr reg'"
    and a2: "API reg' = AList.update m (?cur1 @ group_attributes g) (API reg1)"
    and t2: "\<And>n. map_of (ATTRIBUTES reg') n =
            (if g \<noteq> [] \<and> n \<in> set (names_of (?cur1 @ group_attributes g)) then Some m
             else map_of (ATTRIBUTES reg1) n)"
    by blast
  have ga: "group_attributes (c # g) = map Name (codec_attributes c) @ group_attributes g"
    by (simp add: group_attributes_def)
  have "for_each (\<lambda>c. add_codec m (Some c)) (c # g) reg = Inr reg'"
    by (simp add: r1 r2)
  moreover have "API reg' = AList.update m (cur @ group_attributes (c # g)) (API reg)"
    by (simp add: a2 a1 ga update_last)
  moreover have "\<And>n. map_of (ATTRIBUTES reg') n =
            (if c # g \<noteq> [] \<and> n \<in> set (names_of (cur @ group_attributes (c # g))) then Some m
             else map_of (ATTRIBUTES reg) n)"
    by (auto simp: t2 t1 ga names_of_append group_attributes_def)
  ultimately show ?case by blast
qed

lemma register_module_step:
  assumes api: "API reg = pre @ (m, es) # post" and fresh: "m \<notin> fst ` set pre"
    and ok: "registers_ok m es"
  shows "\<exists>reg'. register_module m reg = Inr reg'
      \<and> API reg' = pre @ (m, expand m es) # post
      \<and> (\<forall>n. map_of (ATTRIBUTES reg') n =
            (if n \<in> set (registered m es) then Some m else map_of (ATTRIBUTES reg) n))"
proof (cases "find_group es")
  case None
  with ok obtain c where m: "m = Some c" by (auto simp: registers_ok_def)
  have look: "map_of (API reg) m = Some es" unfolding api by (rule map_of_middle [OF fresh])
  from add_codec_Some [OF look, of c] obtain reg' where
    r: "add_codec m (Some c) reg = Inr reg'"
    and a: "API reg' = AList.update m (es @ map Name (codec_attributes c)) (API reg)"
    and t: "\<And>n. map_of (ATTRIBUTES reg') n =
            (if n \<in> set (names_of (es @ map Name (codec_attributes c))) then Some m
             else map_of (ATTRIBUTES reg) n)"
    by blast
  have upd: "\<And>v. AList.update m v (API reg) = pre @ (m, v) # post"
    unfolding api by (rule update_middle [OF fresh])
  have e: "expand m es = es @ map Name (codec_attributes c)"
    by (simp add: expand_def None m)
  have same: "add_codec m None reg = add_codec m (Some c) reg"
    by (simp add: add_codec_def m)
  have "register_module m reg = Inr reg'"
    by (simp add: register_module_def look None same r)
  moreover have "API reg' = pre @ (m, expand m es) # post"
    by (simp only: a upd e)
  moreover have "\<And>n. map_of (ATTRIBUTES reg') n =
            (if n \<in> set (registered m es) then Some m else map_of (ATTRIBUTES reg) n)"
    by (simp only: t registered_def e None) simp
  ultimately show ?thesis by blast
next
  case (Some g)
  let ?cur = "remove1 (Group g) es"
  let ?reg0 = "reg\<lparr>API := AList.update m ?cur (API reg)\<rparr>"
  have look: "map_of (API reg) m = Some es" unfolding api by (rule map_of_middle [OF fresh])
  have look0: "map_of (API ?reg0) m = Some ?cur" by (simp add: update_conv')
  have upd: "\<And>v. AList.update m v (API reg) = pre @ (m, v) # post"
    unfolding api by (rule update_middle [OF fresh])
  from for_each_add_codec [OF look0, of g] obtain reg' where
    r: "for_each (\<lambda>c. add_codec m (Some c)) g ?reg0 = Inr reg'"
    and a: "API reg' = AList.update m (?cur @ group_attributes g) (API ?reg0)"
    and t: "\<And>n. map_of (ATTRIBUTES reg') n =
            (if g \<noteq> [] \<and> n \<in> set (names_of (?cur @ group_attributes g)) then Some m
             else map_of (ATTRIBUTES ?reg0) n)"
    by blast
  have "register_module m reg = Inr reg'"
    by (simp add: register_module_def look Some r)
  moreover have "API reg' = pre @ (m, expand m es) # post"
    by (simp add: a update_last upd update_middle [OF fresh] expand_def Some)
  moreover have "\<And>n. map_of (ATTRIBUTES reg') n =
            (if n \<in> set (registered m es) then Some m else map_of (ATTRIBUTES reg) n)"
    by (simp add: t registered_def expand_def Some)
  ultimately show ?thesis by blast
qed

lemma register_loop:
  assumes "API reg = pre @ rest" and "distinct (map fst (pre @ rest))"
    and "\<forall>(m, es) \<in> set rest. registers_ok m es"
  shows "\<exists>reg'. for_each register_module (map fst rest) reg = Inr reg'
      \<and> API reg' = pre @ map (\<lambda>(m, es). (m, expand m es)) rest
      \<and> (\<forall>n. map_of (ATTRIBUTES reg') n = owner_scan rest n (map_of (ATTRIBUTES reg) n))"
  using assms
proof (induction rest arbitrary: pre reg)
  case Nil
  then show ?case by simp
next
  case (Cons x rest)
  obtain m es where x: "x = (m, es)" by (cases x)
  have fresh: "m \<notin> fst ` set pre" using Cons.prems(2) by (auto simp: x)
  have ok: "registers_ok m es" using Cons.prems(3) by (simp add: x)
  have api: "API reg = pre @ (m, es) # rest" using Cons.prems(1) by (simp add: x)
  from register_module_step [OF api fresh ok] obtain reg1 where
    r1: "register_module m reg = Inr reg1"
    and a1: "API reg1 = pre @ (m, expand m es) # rest"
    and t1: "\<And>n. map_of (ATTRIBUTES reg1) n =
            (if n \<in> set (registered m es) then Some m else map_of (ATTRIBUTES reg) n)"
    by blast
  have a1': "API reg1 = (pre @ [(m, expand m es)]) @ rest" by (simp add: a1)
  have d1: "distinct (map fst ((pre @ [(m, expand m es)]) @ rest))"
    using Cons.prems(2) by (simp add: x)
  have ok1: "\<forall>(m, es) \<in> set rest. registers_ok m es" using Cons.prems(3) by simp
  from Cons.IH [OF a1' d1 ok1] obtain reg' where
    r2: "for_each register_module (map fst rest) reg1 = Inr reg'"
    and a2: "API reg' = (pre @ [(m, expand m es)]) @ map (\<lambda>(m, es). (m, expand m es)) rest"
    and t2: "\<And>n. map_of (ATTRIBUTES reg') n = owner_scan rest n (map_of (ATTRIBUTES reg1) n)"
    by blast
  have "for_each register_module (map fst (x # rest)) reg = Inr reg'"
    by (simp add: x r1 r2)
  moreover have "API reg' = pre @ map (\<lambda>(m, es). (m, expand m es)) (x # rest)"
    by (simp add: a2 x)
  moreover have "\<And>n. map_of (ATTRIBUTES reg') n = owner_scan (x # rest) n (map_of (ATTRIBUTES reg) n)"
    by (simp add: t2 t1 x)
  ultimately show ?case by blast
qed

lemma API0_distinct: "distinct (map fst API0)"
  by (simp add: API0_def)

lemma API0_ok: "\<forall>(m, es) \<in> set API0. registers_ok m es"
  by (simp add: API0_def registers_ok_def)

lemma registry_closed_form:
  "register_codecs initial_registry = Inr REGISTRY"
  "API REGISTRY = map (\<lambda>(m, es). (m, expand m es)) API0"
  "map_of (ATTRIBUTES REGISTRY) n = owner_scan API0 n None"
proof -
  have "API initial_registry = [] @ API0" by (simp add: initial_registry_def)
  from register_loop [OF this] API0_distinct API0_ok obtain reg' where
    r: "for_each register_module (map fst API0) initial_registry = Inr reg'"
    and a: "API reg' = [] @ map (\<lambda>(m, es). (m, expand m es)) API0"
    and t: "\<And>n. map_of (ATTRIBUTES reg') n = owner_scan API0 n (map_of (ATTRIBUTES initial_registry) n)"
    by auto
  have rc: "register_codecs initial_registry = Inr reg'"
    using r by (simp add: register_codecs_def initial_registry_def)
  then have eq: "REGISTRY = reg'" by (simp add: REGISTRY_def)
  show "register_codecs initial_registry = Inr REGISTRY" by (simp add: rc eq)
  show "API REGISTRY = map (\<lambda>(m, es). (m, expand m es)) API0" using a by (simp add: eq)
  show "map_of (ATTRIBUTES REGISTRY) n = owner_scan API0 n None"
    using t [of n] by (simp add: eq initial_registry_def)
qed

text \<open>An attribute's owner is a module of \<^verbatim>\<open>_API\<close> whose final list holds the
  attribute's name.\<close>

lemma owner_scan_member:
  "owner_scan api n acc = Some m \<Longrightarrow>
     acc = Some m \<or> (\<exists>es. (m, es) \<in> set api \<and> n \<in> set (registered m es))"
proof (induction api arbitrary: acc)
  case Nil
  then show ?case by simp
next
  case (Cons x api)
  obtain m' es' where x: "x = (m', es')" by (cases x)
  from Cons.prems have "owner_scan api n (if n \<in> set (registered m' es') then Some m' else acc) = Some m"
    by (simp add: x)
  from Cons.IH [OF this] show ?case
    by (auto simp: x split: if_splits)
qed

lemma registered_subset: "set (registered m es) \<subseteq> set (names_of (expand m es))"
  by (simp add: registered_def)

lemma map_of_expanded:
  assumes "distinct (map fst api)" and "(m, es) \<in> set api"
  shows "map_of (map (\<lambda>(m, es). (m, expand m es)) api) m = Some (expand m es)"
proof -
  have "map_of api m = Some es" using assms by simp
  then show ?thesis by (induction api) (auto split: if_splits)
qed

lemma owner_lists_name:
  assumes "map_of (ATTRIBUTES REGISTRY) n = Some m"
  shows "\<exists>es. (m, es) \<in> set API0 \<and> map_of (API REGISTRY) m = Some (expand m es)
           \<and> Name n \<in> set (expand m es)"
proof -
  from assms have "owner_scan API0 n None = Some m" by (simp add: registry_closed_form)
  from owner_scan_member [OF this] obtain es where
    es: "(m, es) \<in> set API0" and n: "n \<in> set (registered m es)" by auto
  have "map_of (API REGISTRY) m = Some (expand m es)"
    by (simp only: registry_closed_form map_of_expanded [OF API0_distinct es])
  moreover have "Name n \<in> set (expand m es)"
    using n registered_subset names_of_member by blast
  ultimately show ?thesis using es by blast
qed

text \<open>No tuple is left in a final list: each list of \<^verbatim>\<open>_API\<close> has at most one.\<close>

lemma groups_of_append: "groups_of (xs @ ys) = groups_of xs @ groups_of ys"
  by (induction xs rule: groups_of.induct) auto

lemma groups_of_attributes: "groups_of (group_attributes g) = []"
  by (induction g) (auto simp: group_attributes_def groups_of_append codec_attributes_def)

lemma groups_of_remove_first:
  "find_group es = Some g \<Longrightarrow> groups_of (remove1 (Group g) es) = tl (groups_of es)"
  by (induction es rule: find_group.induct) auto

lemma find_group_None: "find_group es = None \<Longrightarrow> groups_of es = []"
  by (induction es rule: find_group.induct) auto

lemma groups_of_expand: "groups_of (expand m es) = tl (groups_of es)"
  by (cases "find_group es"; cases m)
     (auto simp: expand_def groups_of_append groups_of_attributes groups_of_remove_first
        find_group_None codec_attributes_def)

lemma groups_of_Nil: "groups_of es = [] \<Longrightarrow> Group g \<notin> set es"
  by (induction es rule: groups_of.induct) auto

lemma API0_one_group: "\<forall>(m, es) \<in> set API0. length (groups_of es) \<le> 1"
  by (simp add: API0_def)

lemma expanded_no_group:
  assumes "(m, es) \<in> set API0"
  shows "groups_of (expand m es) = []"
proof -
  from API0_one_group assms have "length (groups_of es) \<le> 1" by blast
  then have "tl (groups_of es) = []" by (cases "groups_of es") auto
  then show ?thesis by (simp add: groups_of_expand)
qed

section \<open>The lazy resolver\<close>

lemma attach_Name:
  "attach module (Name n # ns) st =
     (if n \<in> fst ` set COMPATIBILITY then attach module ns st
      else attach module ns (st\<lparr>namespace := (namespace st)(n \<mapsto> attached module n)\<rparr>))"
  by (simp add: attached_def Let_def)

lemma attach_names:
  assumes "groups_of ns = []"
  shows "attach module ns st =
           (None, st\<lparr>namespace := (\<lambda>x. if x \<in> set (names_of ns) \<and> x \<notin> fst ` set COMPATIBILITY
                                        then Some (attached module x) else namespace st x)\<rparr>)"
  using assms
proof (induction ns arbitrary: st)
  case Nil
  then show ?case by simp
next
  case (Cons e ns)
  show ?case
  proof (cases e)
    case (Name n)
    with Cons.prems have g: "groups_of ns = []" by simp
    show ?thesis
      unfolding Name attach_Name Cons.IH [OF g]
      by (auto simp: fun_eq_iff intro!: arg_cong [where f = "\<lambda>f. st\<lparr>namespace := f\<rparr>"])
  next
    case (Group g)
    with Cons.prems show ?thesis by simp
  qed
qed

lemma compat_key: "map_of COMPATIBILITY name = None \<longleftrightarrow> name \<notin> fst ` set COMPATIBILITY"
  by (simp add: map_of_eq_None_iff)

lemmas registry_eval =
  API0_def registered_def expand_def group_attributes_def codec_attributes_def capitalize_def
  upper_def lower_def upper_char_def lower_char_def is_lower_char_def is_upper_char_def

lemma alias_targets:
  "\<forall>(old, new) \<in> set COMPATIBILITY.
      map_of COMPATIBILITY old = Some new \<and> map_of COMPATIBILITY new = None"
  by (simp add: COMPATIBILITY_def)

lemma canonical_case:
  "(case map_of COMPATIBILITY name of Some n \<Rightarrow> n | None \<Rightarrow> name) = canonical name"
  by (simp add: canonical_def)

lemma canonical_not_alias: "map_of COMPATIBILITY (canonical name) = None"
proof (cases "map_of COMPATIBILITY name")
  case None
  then show ?thesis by (simp add: canonical_def)
next
  case (Some new)
  then have "(name, new) \<in> set COMPATIBILITY" by (rule map_of_SomeD)
  with alias_targets have "map_of COMPATIBILITY new = None" by fast
  with Some show ?thesis by (simp add: canonical_def)
qed

lemma alias_suffixes:
  "\<forall>(old, new) \<in> set COMPATIBILITY.
      (endswith old ''_decode'' \<longrightarrow> endswith new ''_decode'')
      \<and> (endswith old ''_encode'' \<longrightarrow> endswith new ''_encode'')"
  by (simp add: COMPATIBILITY_def endswith_def)

lemma canonical_suffix:
  assumes "endswith name ''_decode'' \<or> endswith name ''_encode''"
  shows "endswith (canonical name) ''_decode'' \<or> endswith (canonical name) ''_encode''"
proof (cases "map_of COMPATIBILITY name")
  case None
  with assms show ?thesis by (simp add: canonical_def)
next
  case (Some new)
  then have "(name, new) \<in> set COMPATIBILITY" by (rule map_of_SomeD)
  with alias_suffixes have
    "(endswith name ''_decode'' \<longrightarrow> endswith new ''_decode'')
     \<and> (endswith name ''_encode'' \<longrightarrow> endswith new ''_encode'')"
    by fast
  with assms Some show ?thesis by (auto simp: canonical_def)
qed

text \<open>Resolving a name whose canonical name is owned by a backend: the result is what
  the loop attached for the canonical name, whether the backend was bound or not.\<close>

lemma resolve_backend:
  assumes owner: "map_of (ATTRIBUTES REGISTRY) (canonical name) = Some (Some m)"
    and load: "load_module env m = Inr module"
  shows "\<exists>st'. dunder_getattr env st name = (Inr (attached module (canonical name)), st')
           \<and> namespace st' (canonical name) = Some (attached module (canonical name))
           \<and> import_log st' = import_log st @ [''._'' @ m]"
proof -
  from owner_lists_name [OF owner] obtain es where
    es: "(Some m, es) \<in> set API0"
    and api: "map_of (API REGISTRY) (Some m) = Some (expand (Some m) es)"
    and mem: "Name (canonical name) \<in> set (expand (Some m) es)"
    by blast
  have g: "groups_of (expand (Some m) es) = []" by (rule expanded_no_group [OF es])
  have n: "canonical name \<in> set (names_of (expand (Some m) es))"
    using mem by (simp add: names_of_member)
  have c: "canonical name \<notin> fst ` set COMPATIBILITY"
    using canonical_not_alias [of name] by (simp add: compat_key)
  show ?thesis
  proof (cases "canonical name = name")
    case True
    show ?thesis
      using owner n c unfolding True
      by (simp add: dunder_getattr_def canonical_case True load api attach_names [OF g] Let_def)
  next
    case False
    then show ?thesis
      by (simp add: dunder_getattr_def canonical_case owner load api attach_names [OF g] n c
          Let_def)
  qed
qed

text \<open>An exception that leaves the \<^verbatim>\<open>try\<close> statement leaves \<^verbatim>\<open>__getattr__\<close>.\<close>

lemma resolve_load_raises:
  assumes owner: "map_of (ATTRIBUTES REGISTRY) (canonical name) = Some (Some m)"
    and load: "load_module env m = Inl e"
  shows "dunder_getattr env st name = (Inl e, st\<lparr>import_log := import_log st @ [''._'' @ m]\<rparr>)"
  by (simp add: dunder_getattr_def canonical_case owner load Let_def)

text \<open>How the \<^verbatim>\<open>try\<close> statement ends, in terms of what the import does.\<close>

lemma load_module_unbound:
  "load_module env m = Inr None \<longleftrightarrow>
     (\<exists>e. import_module env (''._'' @ m) = Inl e
        \<and> (is_ImportError e \<or> (is_AttributeError e \<and> import_shared env = None)))"
  by (cases "import_module env (''._'' @ m)"; cases "import_shared env")
     (auto simp: load_module_def)

lemma load_module_bound:
  "load_module env m = Inr (Some b) \<longleftrightarrow> import_module env (''._'' @ m) = Inr b"
  by (cases "import_module env (''._'' @ m)"; cases "import_shared env")
     (auto simp: load_module_def)

lemma load_module_raises:
  "load_module env m = Inl e \<longleftrightarrow>
     (\<exists>e0. import_module env (''._'' @ m) = Inl e0 \<and> \<not> is_ImportError e0
        \<and> (if is_AttributeError e0 then import_shared env = Some e else e = e0))"
  by (cases "import_module env (''._'' @ m)"; cases "import_shared env")
     (auto simp: load_module_def)

lemma stub_missing:
  assumes "module = None \<or> (\<exists>b. module = Some b \<and> b n = None)"
  shows "attached module n = stub n module"
proof -
  have "getattr_default module n = Data PyNone"
    using assms by (auto simp: getattr_default_def)
  then show ?thesis by (simp add: attached_def)
qed

text \<open>
  Claim C1, amended.  Let \<open>name\<close> end in \<^verbatim>\<open>_decode\<close> or \<^verbatim>\<open>_encode\<close>.  The stub made
  for it, whether the backend failed to bind (\<^verbatim>\<open>module\<close> is \<^verbatim>\<open>None\<close>) or bound
  without the attribute, is a function; making it raises nothing, and every call of it,
  whatever the arguments, raises the \<^verbatim>\<open>DelayedImportError\<close> built from the name the
  stub was made for, whose message quotes that name.  The resolver makes the stub for
  the name after alias normalisation, which has the same suffix and is the requested
  name itself unless that is an alias.  Let the normalised name be an attribute of the
  registry owned by the backend \<open>m\<close>.  If the \<^verbatim>\<open>try\<close> statement leaves \<^verbatim>\<open>module\<close>
  \<^verbatim>\<open>None\<close> (the import raised \<^verbatim>\<open>ImportError\<close>, or \<^verbatim>\<open>AttributeError\<close> with
  \<^verbatim>\<open>_shared\<close> importable) or a backend without the attribute, then resolving the name
  does not raise: it returns the stub of the normalised name, which the namespace now
  holds under that name, and whose calls raise the \<^verbatim>\<open>DelayedImportError\<close> of the
  normalised name.  If the import raises anything else, or \<^verbatim>\<open>_shared\<close> cannot be
  imported after an \<^verbatim>\<open>AttributeError\<close>, that exception leaves the resolver.
\<close>

theorem resolve_unavailable_codec:
  assumes suffix: "endswith name ''_decode'' \<or> endswith name ''_encode''"
  shows "(\<exists>f. stub name module = Function f
            \<and> (\<forall>args kwargs. py_call (Function f) args kwargs = Inl (DelayedImportError name)))
       \<and> is_DelayedImportError (DelayedImportError name)
       \<and> str_exn (DelayedImportError name)
            = ''could not import name '' @ repr name @ '' from 'imagecodecs'' @ [CHR 0x27]
       \<and> (endswith (canonical name) ''_decode'' \<or> endswith (canonical name) ''_encode'')
       \<and> (map_of COMPATIBILITY name = None \<longrightarrow> canonical name = name)
       \<and> (map_of (ATTRIBUTES REGISTRY) (canonical name) = Some (Some m)
            \<and> load_module env m = Inr module
            \<and> (module = None \<or> (\<exists>b. module = Some b \<and> b (canonical name) = None)) \<longrightarrow>
          (\<exists>st'. dunder_getattr env st name = (Inr (stub (canonical name) module), st')
             \<and> namespace st' (canonical name) = Some (stub (canonical name) module))
          \<and> (\<forall>args kwargs. py_call (stub (canonical name) module) args kwargs
                = Inl (DelayedImportError (canonical name))))
       \<and> (\<forall>e. map_of (ATTRIBUTES REGISTRY) (canonical name) = Some (Some m)
            \<and> load_module env m = Inl e \<longrightarrow>
          fst (dunder_getattr env st name) = Inl e)
       \<and> (load_module env m = Inr None \<longleftrightarrow>
            (\<exists>e. import_module env (''._'' @ m) = Inl e
               \<and> (is_ImportError e \<or> (is_AttributeError e \<and> import_shared env = None))))
       \<and> (\<forall>b. load_module env m = Inr (Some b) \<longleftrightarrow> import_module env (''._'' @ m) = Inr b)
       \<and> (\<forall>e. load_module env m = Inl e \<longleftrightarrow>
            (\<exists>e0. import_module env (''._'' @ m) = Inl e0 \<and> \<not> is_ImportError e0
               \<and> (if is_AttributeError e0 then import_shared env = Some e else e = e0)))"
proof (intro conjI impI allI)
  from stub_decode_encode [OF suffix] obtain f where
    f: "stub name module = Function f"
    and call: "\<forall>args kwargs. func_body f args kwargs = Inl (DelayedImportError name)"
    by blast
  show "\<exists>f. stub name module = Function f
          \<and> (\<forall>args kwargs. py_call (Function f) args kwargs = Inl (DelayedImportError name))"
    using f call by auto
  show "is_DelayedImportError (DelayedImportError name)"
    by (simp add: DelayedImportError_def)
  show "str_exn (DelayedImportError name)
          = ''could not import name '' @ repr name @ '' from 'imagecodecs'' @ [CHR 0x27]"
    by (simp add: DelayedImportError_def)
  show "endswith (canonical name) ''_decode'' \<or> endswith (canonical name) ''_encode''"
    by (rule canonical_suffix [OF suffix])
  show "canonical name = name" if "map_of COMPATIBILITY name = None"
    using that by (simp add: canonical_def)
  show "\<exists>st'. dunder_getattr env st name = (Inr (stub (canonical name) module), st')
          \<and> namespace st' (canonical name) = Some (stub (canonical name) module)"
    if h: "map_of (ATTRIBUTES REGISTRY) (canonical name) = Some (Some m)
            \<and> load_module env m = Inr module
            \<and> (module = None \<or> (\<exists>b. module = Some b \<and> b (canonical name) = None))"
  proof -
    from h have owner: "map_of (ATTRIBUTES REGISTRY) (canonical name) = Some (Some m)"
      and load: "load_module env m = Inr module"
      and missing: "module = None \<or> (\<exists>b. module = Some b \<and> b (canonical name) = None)"
      by simp_all
    from resolve_backend [OF owner load] obtain st' where
      r: "dunder_getattr env st name = (Inr (attached module (canonical name)), st')"
      and ns: "namespace st' (canonical name) = Some (attached module (canonical name))"
      by blast
    from r ns show ?thesis by (simp add: stub_missing [OF missing])
  qed
  show "py_call (stub (canonical name) module) args kwargs
          = Inl (DelayedImportError (canonical name))"
    if "map_of (ATTRIBUTES REGISTRY) (canonical name) = Some (Some m)
            \<and> load_module env m = Inr module
            \<and> (module = None \<or> (\<exists>b. module = Some b \<and> b (canonical name) = None))"
    for args kwargs
  proof -
    from stub_decode_encode [OF canonical_suffix [OF suffix]] obtain g where
      "stub (canonical name) module = Function g"
      and "\<forall>args kwargs. func_body g args kwargs = Inl (DelayedImportError (canonical name))"
      by blast
    then show ?thesis by simp
  qed
  show "fst (dunder_getattr env st name) = Inl e"
    if "map_of (ATTRIBUTES REGISTRY) (canonical name) = Some (Some m)
          \<and> load_module env m = Inl e" for e
    using that resolve_load_raises [of name m env e st] by simp
  show "load_module env m = Inr None \<longleftrightarrow>
          (\<exists>e. import_module env (''._'' @ m) = Inl e
             \<and> (is_ImportError e \<or> (is_AttributeError e \<and> import_shared env = None)))"
    by (rule load_module_unbound)
  show "load_module env m = Inr (Some b) \<longleftrightarrow> import_module env (''._'' @ m) = Inr b" for b
    by (rule load_module_bound)
  show "load_module env m = Inl e \<longleftrightarrow>
          (\<exists>e0. import_module env (''._'' @ m) = Inl e0 \<and> \<not> is_ImportError e0
             \<and> (if is_AttributeError e0 then import_shared env = Some e else e = e0))" for e
    by (rule load_module_raises)
qed

lemma owner_aec_decode: "map_of (ATTRIBUTES REGISTRY) ''aec_decode'' = Some (Some ''aec'')"
  by (simp add: registry_closed_form registry_eval)

lemma owner_zlib_decode: "map_of (ATTRIBUTES REGISTRY) ''zlib_decode'' = Some (Some ''zlib'')"
  by (simp add: registry_closed_form registry_eval)

lemma owner_zopfli_decode:
  "map_of (ATTRIBUTES REGISTRY) ''zopfli_decode'' = Some (Some ''zopfli'')"
  by (simp add: registry_closed_form registry_eval)

lemma canonical_aec_decode: "canonical ''aec_decode'' = ''aec_decode''"
  by (simp add: canonical_def COMPATIBILITY_def)

lemma canonical_zopfli_decode: "canonical ''zopfli_decode'' = ''zlib_decode''"
  by (simp add: canonical_def COMPATIBILITY_def)

lemma load_no_backends: "load_module no_backends m = Inr None"
  by (simp add: load_module_def no_backends_def)

lemma load_broken_backends:
  "load_module broken_backends m = Inl (OtherException ''OSError'' ''cannot load library'')"
  by (simp add: load_module_def broken_backends_def)

theorem resolve_unavailable_codec_witness:
  "(\<exists>f st'. dunder_getattr no_backends fresh_state ''zopfli_decode'' = (Inr (Function f), st')
      \<and> namespace st' ''zlib_decode'' = Some (Function f)
      \<and> py_call (Function f) [PyBytes ''abc''] [] = Inl (DelayedImportError ''zlib_decode''))
   \<and> fst (dunder_getattr broken_backends fresh_state ''aec_decode'')
       = Inl (OtherException ''OSError'' ''cannot load library'')"
proof -
  have s1: "endswith ''zopfli_decode'' ''_decode'' \<or> endswith ''zopfli_decode'' ''_encode''"
    by (simp add: endswith_def)
  have s2: "endswith ''aec_decode'' ''_decode'' \<or> endswith ''aec_decode'' ''_encode''"
    by (simp add: endswith_def)
  note w1 = resolve_unavailable_codec [OF s1, of "None :: backend option" "''zlib''"
      no_backends fresh_state, unfolded canonical_zopfli_decode]
  note w2 = resolve_unavailable_codec [OF s2, of "None :: backend option" "''aec''"
      broken_backends fresh_state, unfolded canonical_aec_decode]
  have p: "map_of (ATTRIBUTES REGISTRY) ''zlib_decode'' = Some (Some ''zlib'')
      \<and> load_module no_backends ''zlib'' = Inr (None :: backend option)
      \<and> ((None :: backend option) = None
          \<or> (\<exists>b. (None :: backend option) = Some b \<and> b ''zlib_decode'' = None))"
    by (simp add: owner_zlib_decode load_no_backends)
  from w1 have a: "map_of (ATTRIBUTES REGISTRY) ''zlib_decode'' = Some (Some ''zlib'')
      \<and> load_module no_backends ''zlib'' = Inr (None :: backend option)
      \<and> ((None :: backend option) = None
          \<or> (\<exists>b. (None :: backend option) = Some b \<and> b ''zlib_decode'' = None)) \<longrightarrow>
      (\<exists>st'. dunder_getattr no_backends fresh_state ''zopfli_decode''
                = (Inr (stub ''zlib_decode'' (None :: backend option)), st')
         \<and> namespace st' ''zlib_decode'' = Some (stub ''zlib_decode'' (None :: backend option)))
      \<and> (\<forall>args kwargs. py_call (stub ''zlib_decode'' (None :: backend option)) args kwargs
            = Inl (DelayedImportError ''zlib_decode''))"
    by (elim conjE)
  from w2 have b: "\<forall>e. map_of (ATTRIBUTES REGISTRY) ''aec_decode'' = Some (Some ''aec'')
      \<and> load_module broken_backends ''aec'' = Inl e \<longrightarrow>
      fst (dunder_getattr broken_backends fresh_state ''aec_decode'') = Inl e"
    by (elim conjE)
  have s: "\<exists>f. stub ''zlib_decode'' (None :: backend option) = Function f"
    by (simp add: stub_def endswith_def)
  from a [rule_format, OF p] s have
    "\<exists>f st'. dunder_getattr no_backends fresh_state ''zopfli_decode'' = (Inr (Function f), st')
      \<and> namespace st' ''zlib_decode'' = Some (Function f)
      \<and> py_call (Function f) [PyBytes ''abc''] [] = Inl (DelayedImportError ''zlib_decode'')"
    by metis
  moreover have "fst (dunder_getattr broken_backends fresh_state ''aec_decode'')
       = Inl (OtherException ''OSError'' ''cannot load library'')"
    by (rule b [rule_format]) (simp add: owner_aec_decode load_broken_backends)
  ultimately show ?thesis by (rule conjI)
qed

text \<open>
  The claim as first stated fails at \<^verbatim>\<open>zopfli_decode\<close>: it ends in \<^verbatim>\<open>_decode\<close>, the
  registry has it with the owner \<^verbatim>\<open>zopfli\<close>, and no backend binds; resolving it
  returns the stub of \<^verbatim>\<open>zlib_decode\<close>, whose error carries that name and not the
  requested one.  It fails also where loading the backend raises an \<^verbatim>\<open>OSError\<close>:
  resolving \<^verbatim>\<open>aec_decode\<close> then raises.
\<close>

theorem resolve_unavailable_codec_counterexample:
  "endswith ''zopfli_decode'' ''_decode''
   \<and> map_of (ATTRIBUTES REGISTRY) ''zopfli_decode'' = Some (Some ''zopfli'')
   \<and> load_module no_backends ''zopfli'' = Inr None
   \<and> fst (dunder_getattr no_backends fresh_state ''zopfli_decode'')
       = Inr (stub ''zlib_decode'' (None :: backend option))
   \<and> py_call (stub ''zlib_decode'' (None :: backend option)) [] []
       = Inl (DelayedImportError ''zlib_decode'')
   \<and> DelayedImportError ''zlib_decode'' \<noteq> DelayedImportError ''zopfli_decode''
   \<and> map_of (ATTRIBUTES REGISTRY) ''aec_decode'' = Some (Some ''aec'')
   \<and> fst (dunder_getattr broken_backends fresh_state ''aec_decode'')
       = Inl (OtherException ''OSError'' ''cannot load library'')"
proof (intro conjI)
  show "endswith ''zopfli_decode'' ''_decode''" by (simp add: endswith_def)
  show "map_of (ATTRIBUTES REGISTRY) ''zopfli_decode'' = Some (Some ''zopfli'')"
    by (rule owner_zopfli_decode)
  show "load_module no_backends ''zopfli'' = Inr None" by (rule load_no_backends)
  have o: "map_of (ATTRIBUTES REGISTRY) (canonical ''zopfli_decode'') = Some (Some ''zlib'')"
    by (simp only: canonical_zopfli_decode owner_zlib_decode)
  from resolve_backend [OF o load_no_backends, of fresh_state]
  have "fst (dunder_getattr no_backends fresh_state ''zopfli_decode'')
          = Inr (attached None ''zlib_decode'')"
    by (auto simp only: canonical_zopfli_decode fst_conv)
  then show "fst (dunder_getattr no_backends fresh_state ''zopfli_decode'')
       = Inr (stub ''zlib_decode'' (None :: backend option))"
    by (simp add: stub_missing)
  show "py_call (stub ''zlib_decode'' (None :: backend option)) [] []
       = Inl (DelayedImportError ''zlib_decode'')"
    by (simp add: stub_def endswith_def)
  have "repr ''zlib_decode'' = CHR 0x27 # ''zlib_decode'' @ [CHR 0x27]"
    by (rule repr_plain) (simp add: is_lower_char_def)
  moreover have "repr ''zopfli_decode'' = CHR 0x27 # ''zopfli_decode'' @ [CHR 0x27]"
    by (rule repr_plain) (simp add: is_lower_char_def)
  ultimately show "DelayedImportError ''zlib_decode'' \<noteq> DelayedImportError ''zopfli_decode''"
    by (simp add: DelayedImportError_def)
  show "map_of (ATTRIBUTES REGISTRY) ''aec_decode'' = Some (Some ''aec'')"
    by (rule owner_aec_decode)
  have o2: "map_of (ATTRIBUTES REGISTRY) (canonical ''aec_decode'') = Some (Some ''aec'')"
    by (simp only: canonical_aec_decode owner_aec_decode)
  show "fst (dunder_getattr broken_backends fresh_state ''aec_decode'')
       = Inl (OtherException ''OSError'' ''cannot load library'')"
    by (simp add: resolve_load_raises [OF o2 load_broken_backends])
qed

text \<open>
  Claim C8.  If the name, after alias normalisation, is not a key of
  \<^verbatim>\<open>_ATTRIBUTES\<close>, then \<^verbatim>\<open>__getattr__\<close> raises an \<^verbatim>\<open>AttributeError\<close> whose
  message ends with the \<^verbatim>\<open>repr\<close> of the normalised name, before anything is
  imported or set.  The error is not a \<^verbatim>\<open>DelayedImportError\<close>: no
  \<^verbatim>\<open>except DelayedImportError\<close> or \<^verbatim>\<open>except ImportError\<close> catches it.
\<close>

theorem getattr_unknown:
  assumes "map_of (ATTRIBUTES REGISTRY)
             (case map_of COMPATIBILITY name of Some n \<Rightarrow> n | None \<Rightarrow> name) = None"
  shows "\<exists>e. dunder_getattr env st name = (Inl e, st)
           \<and> e = AttributeError (''module 'imagecodecs' has no attribute ''
                   @ repr (case map_of COMPATIBILITY name of Some n \<Rightarrow> n | None \<Rightarrow> name))
           \<and> \<not> is_DelayedImportError e \<and> \<not> is_ImportError e
           \<and> (\<forall>n. e \<noteq> DelayedImportError n)"
  using assms by (simp add: dunder_getattr_def DelayedImportError_def Let_def)

lemma owner_szip_decode: "map_of (ATTRIBUTES REGISTRY) ''szip_decode'' = None"
  by (simp add: registry_closed_form registry_eval)

theorem getattr_unknown_witness:
  "dunder_getattr no_backends fresh_state ''szip_decode''
     = (Inl (AttributeError
               (''module 'imagecodecs' has no attribute 'szip_decode'' @ [CHR 0x27])),
        fresh_state)"
proof -
  have canon: "map_of COMPATIBILITY ''szip_decode'' = None"
    by (simp add: COMPATIBILITY_def)
  have r: "repr ''szip_decode'' = CHR 0x27 # ''szip_decode'' @ [CHR 0x27]"
    by (rule repr_plain) (simp add: is_lower_char_def)
  have a: "map_of (ATTRIBUTES REGISTRY)
             (case map_of COMPATIBILITY ''szip_decode'' of Some n \<Rightarrow> n | None \<Rightarrow> ''szip_decode'')
           = None"
    by (simp add: canon owner_szip_decode)
  from getattr_unknown [OF a, of no_backends fresh_state]
  show ?thesis by (simp add: canon r)
qed

lemma alias_same_value:
  assumes old: "map_of COMPATIBILITY old = Some new" and new: "map_of COMPATIBILITY new = None"
  shows "fst (dunder_getattr env st old) = fst (dunder_getattr env st new)"
proof (cases "map_of (ATTRIBUTES REGISTRY) new")
  case None
  then show ?thesis by (simp add: dunder_getattr_def old new)
next
  case (Some owner)
  show ?thesis
  proof (cases owner)
    case None
    then show ?thesis by (simp add: dunder_getattr_def old new Some)
  next
    case m: (Some m)
    let ?st1 = "st\<lparr>import_log := import_log st @ [''._'' @ m]\<rparr>"
    show ?thesis
    proof (cases "load_module env m")
      case (Inl e)
      then show ?thesis by (simp add: dunder_getattr_def old new Some m Let_def)
    next
      case (Inr module)
      show ?thesis
      proof (cases "map_of (API REGISTRY) (Some m)")
        case None
        then show ?thesis by (simp add: dunder_getattr_def old new Some m Inr Let_def)
      next
        case ns: (Some ns)
        obtain r st2 where a: "attach module ns ?st1 = (r, st2)" by (cases "attach module ns ?st1")
        show ?thesis
        proof (cases r)
          case (Some e)
          then show ?thesis
            using a by (simp add: dunder_getattr_def old new \<open>map_of (ATTRIBUTES REGISTRY) new = Some owner\<close> m Inr ns Let_def)
        next
          case None
          then show ?thesis
            using a by (cases "namespace st2 new")
              (simp_all add: dunder_getattr_def old new \<open>map_of (ATTRIBUTES REGISTRY) new = Some owner\<close> m Inr ns Let_def)
        qed
      qed
    qed
  qed
qed

lemma attach_log: "import_log (snd (attach module ns st)) = import_log st"
proof (induction ns arbitrary: st)
  case Nil
  then show ?case by simp
next
  case (Cons e ns)
  show ?case
  proof (cases e)
    case (Name n)
    show ?thesis unfolding Name attach_Name by (simp add: Cons.IH)
  next
    case (Group g)
    then show ?thesis by simp
  qed
qed

text \<open>Resolving a name whose canonical name is owned by a backend asks for the import
  of that backend, whatever comes of it.\<close>

lemma resolve_imports:
  assumes owner: "map_of (ATTRIBUTES REGISTRY) (canonical name) = Some (Some m)"
  shows "import_log (snd (dunder_getattr env st name)) = import_log st @ [''._'' @ m]"
proof (cases "load_module env m")
  case (Inl e)
  then show ?thesis by (simp add: resolve_load_raises [OF owner])
next
  case (Inr module)
  from resolve_backend [OF owner Inr, of st] show ?thesis by auto
qed

lemma owner_none_version: "map_of (ATTRIBUTES REGISTRY) ''none_version'' = Some None"
  by (simp add: registry_closed_form registry_eval)

lemma canon_none_version: "map_of COMPATIBILITY ''none_version'' = None"
  by (simp add: COMPATIBILITY_def)

lemma fresh_none_version: "namespace fresh_state ''none_version'' = Some (Function none_version)"
  by (simp add: fresh_state_def none_namespace_def)

lemma owner_JPEG8: "map_of (ATTRIBUTES REGISTRY) ''JPEG8'' = Some (Some ''jpeg8'')"
  by (simp add: registry_closed_form registry_eval)

lemma owner_jpeg8_check: "map_of (ATTRIBUTES REGISTRY) ''jpeg8_check'' = Some (Some ''jpeg8'')"
  by (simp add: registry_closed_form registry_eval)

lemma owner_jpeg8_version:
  "map_of (ATTRIBUTES REGISTRY) ''jpeg8_version'' = Some (Some ''jpeg8'')"
  by (simp add: registry_closed_form registry_eval)

lemma owner_jpeg_check: "map_of (ATTRIBUTES REGISTRY) ''jpeg_check'' = Some None"
  by (simp add: registry_closed_form registry_eval)

lemma owner_zopfli_check:
  "map_of (ATTRIBUTES REGISTRY) ''zopfli_check'' = Some (Some ''zopfli'')"
  by (simp add: registry_closed_form registry_eval)

lemma owner_j2k_encode: "map_of (ATTRIBUTES REGISTRY) ''j2k_encode'' = None"
  by (simp add: registry_closed_form registry_eval)

lemma owner_j2k_decode: "map_of (ATTRIBUTES REGISTRY) ''j2k_decode'' = None"
  by (simp add: registry_closed_form registry_eval)

lemma owner_jxr_encode: "map_of (ATTRIBUTES REGISTRY) ''jxr_encode'' = None"
  by (simp add: registry_closed_form registry_eval)

lemma owner_jxr_decode: "map_of (ATTRIBUTES REGISTRY) ''jxr_decode'' = None"
  by (simp add: registry_closed_form registry_eval)

text \<open>The aliases that the registry has with the owner \<^verbatim>\<open>None\<close>, and where they
  lead.\<close>

lemma module_less_aliases:
  assumes owner: "map_of (ATTRIBUTES REGISTRY) name = Some None"
    and isalias: "map_of COMPATIBILITY name \<noteq> None"
  shows "name \<in> {''JPEG'', ''jpeg_check'', ''jpeg_version''}
       \<and> map_of (ATTRIBUTES REGISTRY) (canonical name) = Some (Some ''jpeg8'')"
proof -
  from isalias have "name \<in> fst ` set COMPATIBILITY" by (simp add: compat_key)
  then have "name \<in> {''JPEG'', ''jpeg_check'', ''jpeg_version'', ''zopfli_check'',
      ''zopfli_decode'', ''j2k_encode'', ''j2k_decode'', ''jxr_encode'', ''jxr_decode''}"
    by (simp add: COMPATIBILITY_def)
  then consider "name = ''JPEG''" | "name = ''jpeg_check''" | "name = ''jpeg_version''"
    | "name = ''zopfli_check''" | "name = ''zopfli_decode''" | "name = ''j2k_encode''"
    | "name = ''j2k_decode''" | "name = ''jxr_encode''" | "name = ''jxr_decode''"
    by (elim insertE emptyE)
  then show ?thesis
  proof cases
    case 1
    have "canonical ''JPEG'' = ''JPEG8''" by (simp add: canonical_def COMPATIBILITY_def)
    then show ?thesis unfolding 1 by (simp add: owner_JPEG8)
  next
    case 2
    have "canonical ''jpeg_check'' = ''jpeg8_check''"
      by (simp add: canonical_def COMPATIBILITY_def)
    then show ?thesis unfolding 2 by (simp add: owner_jpeg8_check)
  next
    case 3
    have "canonical ''jpeg_version'' = ''jpeg8_version''"
      by (simp add: canonical_def COMPATIBILITY_def)
    then show ?thesis unfolding 3 by (simp add: owner_jpeg8_version)
  next
    case 4
    with owner owner_zopfli_check show ?thesis by simp
  next
    case 5
    with owner owner_zopfli_decode show ?thesis by simp
  next
    case 6
    with owner owner_j2k_encode show ?thesis by simp
  next
    case 7
    with owner owner_j2k_decode show ?thesis by simp
  next
    case 8
    with owner owner_jxr_encode show ?thesis by simp
  next
    case 9
    with owner owner_jxr_decode show ?thesis by simp
  qed
qed

text \<open>
  Claim C9, amended.  For a name whose canonical name (the name after alias
  normalisation) has the owner \<^verbatim>\<open>None\<close> in \<^verbatim>\<open>_ATTRIBUTES\<close>, and so for every
  registered name with the owner \<^verbatim>\<open>None\<close> that is not an alias, \<^verbatim>\<open>__getattr__\<close>
  returns \<^verbatim>\<open>None\<close>, whatever the namespace holds under the name; it imports nothing and
  sets nothing.  The value the package defines for a name is what ordinary lookup in the
  namespace returns, without entering \<^verbatim>\<open>__getattr__\<close>.  The registered names with the
  owner \<^verbatim>\<open>None\<close> that are aliases are \<^verbatim>\<open>JPEG\<close>, \<^verbatim>\<open>jpeg_check\<close> and
  \<^verbatim>\<open>jpeg_version\<close>: for them \<^verbatim>\<open>__getattr__\<close> resolves the canonical name, which the
  backend \<^verbatim>\<open>jpeg8\<close> owns, so it asks for the import of \<^verbatim>\<open>._jpeg8\<close> and gives what
  it gives for the canonical name.
\<close>

theorem getattr_module_less:
  "(map_of (ATTRIBUTES REGISTRY) (canonical name) = Some None \<longrightarrow>
      dunder_getattr env st name = (Inr (Data PyNone), st))
   \<and> (map_of (ATTRIBUTES REGISTRY) name = Some None \<and> map_of COMPATIBILITY name = None \<longrightarrow>
      dunder_getattr env st name = (Inr (Data PyNone), st))
   \<and> (\<forall>v. namespace st name = Some v \<longrightarrow> module_getattr env st name = (Inr v, st))
   \<and> (map_of (ATTRIBUTES REGISTRY) name = Some None \<and> map_of COMPATIBILITY name \<noteq> None \<longrightarrow>
      name \<in> {''JPEG'', ''jpeg_check'', ''jpeg_version''}
      \<and> map_of (ATTRIBUTES REGISTRY) (canonical name) = Some (Some ''jpeg8'')
      \<and> fst (dunder_getattr env st name) = fst (dunder_getattr env st (canonical name))
      \<and> import_log (snd (dunder_getattr env st name)) = import_log st @ [''._jpeg8''])"
proof (intro conjI impI allI)
  show "dunder_getattr env st name = (Inr (Data PyNone), st)"
    if "map_of (ATTRIBUTES REGISTRY) (canonical name) = Some None"
    using that by (simp add: dunder_getattr_def canonical_case Let_def)
  show "dunder_getattr env st name = (Inr (Data PyNone), st)"
    if "map_of (ATTRIBUTES REGISTRY) name = Some None \<and> map_of COMPATIBILITY name = None"
    using that by (simp add: dunder_getattr_def Let_def)
  show "module_getattr env st name = (Inr v, st)" if "namespace st name = Some v" for v
    using that by (simp add: module_getattr_def)
  assume h: "map_of (ATTRIBUTES REGISTRY) name = Some None \<and> map_of COMPATIBILITY name \<noteq> None"
  then have owner: "map_of (ATTRIBUTES REGISTRY) name = Some None"
    and isalias: "map_of COMPATIBILITY name \<noteq> None"
    by simp_all
  note a = module_less_aliases [OF owner isalias]
  show "name \<in> {''JPEG'', ''jpeg_check'', ''jpeg_version''}" using a by (rule conjunct1)
  show c: "map_of (ATTRIBUTES REGISTRY) (canonical name) = Some (Some ''jpeg8'')"
    using a by (rule conjunct2)
  from isalias obtain new where new: "map_of COMPATIBILITY name = Some new" by auto
  then have cn: "canonical name = new" by (simp add: canonical_def)
  have "map_of COMPATIBILITY new = None"
    using canonical_not_alias [of name] by (simp only: cn)
  from alias_same_value [OF new this]
  show "fst (dunder_getattr env st name) = fst (dunder_getattr env st (canonical name))"
    by (simp only: cn)
  show "import_log (snd (dunder_getattr env st name)) = import_log st @ [''._jpeg8'']"
    using resolve_imports [OF c, of env st] by simp
qed

theorem getattr_module_less_witness:
  "dunder_getattr no_backends fresh_state ''none_version'' = (Inr (Data PyNone), fresh_state)
     \<and> module_getattr no_backends fresh_state ''none_version''
         = (Inr (Function none_version), fresh_state)
     \<and> map_of (ATTRIBUTES REGISTRY) ''jpeg_check'' = Some None
     \<and> fst (dunder_getattr no_backends fresh_state ''jpeg_check'')
         = fst (dunder_getattr no_backends fresh_state ''jpeg8_check'')
     \<and> import_log (snd (dunder_getattr no_backends fresh_state ''jpeg_check'')) = [''._jpeg8'']"
proof -
  note w1 = getattr_module_less [of "''none_version''" no_backends fresh_state]
  note w2 = getattr_module_less [of "''jpeg_check''" no_backends fresh_state]
  have c2: "canonical ''jpeg_check'' = ''jpeg8_check''"
    by (simp add: canonical_def COMPATIBILITY_def)
  have a2: "map_of COMPATIBILITY ''jpeg_check'' \<noteq> None"
    by (simp add: COMPATIBILITY_def)
  have l: "import_log fresh_state = []" by (simp add: fresh_state_def)
  from w1 have "dunder_getattr no_backends fresh_state ''none_version''
      = (Inr (Data PyNone), fresh_state)"
    using owner_none_version canon_none_version by simp
  moreover from w1 have "module_getattr no_backends fresh_state ''none_version''
      = (Inr (Function none_version), fresh_state)"
    using fresh_none_version by simp
  moreover from w2 have "fst (dunder_getattr no_backends fresh_state ''jpeg_check'')
         = fst (dunder_getattr no_backends fresh_state ''jpeg8_check'')
     \<and> import_log (snd (dunder_getattr no_backends fresh_state ''jpeg_check'')) = [''._jpeg8'']"
    using owner_jpeg_check a2 by (simp add: c2 l)
  ultimately show ?thesis using owner_jpeg_check by simp
qed

text \<open>The claim as stated fails: the package defines \<^verbatim>\<open>none_version\<close>, its owner is
  \<^verbatim>\<open>None\<close>, and \<^verbatim>\<open>__getattr__\<close> does not return that function.\<close>

theorem getattr_module_less_counterexample:
  "map_of (ATTRIBUTES REGISTRY) ''none_version'' = Some None
     \<and> namespace fresh_state ''none_version'' = Some (Function none_version)
     \<and> fst (dunder_getattr no_backends fresh_state ''none_version'')
         \<noteq> Inr (Function none_version)"
  by (simp add: owner_none_version fresh_none_version dunder_getattr_def canon_none_version)

lemma alias_in_dir:
  assumes "(old, new) \<in> set COMPATIBILITY"
  shows "old \<in> set dunder_dir"
proof -
  from assms have "old \<in> fst ` set COMPATIBILITY" by force
  then show ?thesis by (simp add: dunder_dir_def)
qed

text \<open>
  Claim C6, as the code has it.  Every alias name is in the list \<^verbatim>\<open>__dir__()\<close>
  returns, and \<^verbatim>\<open>__getattr__\<close> gives for it what it gives for its canonical name:
  the same value or the same exception.
\<close>

theorem alias_listed_and_resolved:
  "\<forall>(old, new) \<in> set COMPATIBILITY.
      old \<in> set dunder_dir
      \<and> fst (dunder_getattr env st old) = fst (dunder_getattr env st new)"
proof (rule ballI, rule prod.case_eq_if [THEN iffD2])
  fix p assume p: "p \<in> set COMPATIBILITY"
  then have m: "(fst p, snd p) \<in> set COMPATIBILITY" by simp
  from alias_targets p have t: "map_of COMPATIBILITY (fst p) = Some (snd p)"
    and c: "map_of COMPATIBILITY (snd p) = None"
    by (auto simp: case_prod_beta)
  show "fst p \<in> set dunder_dir
      \<and> fst (dunder_getattr env st (fst p)) = fst (dunder_getattr env st (snd p))"
    using alias_in_dir [OF m] alias_same_value [OF t c] by simp
qed

theorem alias_listed_and_resolved_witness:
  "(''j2k_encode'', ''jpeg2k_encode'') \<in> set COMPATIBILITY
     \<and> ''j2k_encode'' \<in> set dunder_dir
     \<and> fst (dunder_getattr no_backends fresh_state ''j2k_encode'')
         = fst (dunder_getattr no_backends fresh_state ''jpeg2k_encode'')"
proof -
  have m: "(''j2k_encode'', ''jpeg2k_encode'') \<in> set COMPATIBILITY"
    by (simp add: COMPATIBILITY_def)
  from alias_listed_and_resolved [of no_backends fresh_state] m
  show ?thesis by fast
qed

text \<open>The claim as stated fails: \<^verbatim>\<open>j2k_encode\<close> is an alias, and it is in the list
  \<^verbatim>\<open>__dir__()\<close> returns.\<close>

theorem alias_listed_counterexample:
  "map_of COMPATIBILITY ''j2k_encode'' = Some ''jpeg2k_encode''
     \<and> ''j2k_encode'' \<in> set dunder_dir"
proof -
  have m: "(''j2k_encode'', ''jpeg2k_encode'') \<in> set COMPATIBILITY"
    by (simp add: COMPATIBILITY_def)
  have "map_of COMPATIBILITY ''j2k_encode'' = Some ''jpeg2k_encode''"
    by (simp add: COMPATIBILITY_def)
  then show ?thesis using alias_in_dir [OF m] by simp
qed

section \<open>Generic read: the list of candidates\<close>

lemma map_of_fold_update_pairs:
  "map_of (fold (\<lambda>(k, v). AList.update k v) ps al) = map_of al ++ map_of (rev ps)"
proof (induction ps arbitrary: al)
  case Nil
  then show ?case by simp
next
  case (Cons p ps)
  obtain k v where p: "p = (k, v)" by (cases p)
  show ?case
    by (simp add: p Cons.IH update_conv' map_add_upd_left fun_eq_iff map_add_def split: option.splits)
qed

lemma imcodecs_lookup:
  "map_of imcodecs e =
     map_of (rev (concat (map (\<lambda>(codec, exts). map (\<lambda>ext. (ext, codec)) exts) imcodecs_table))) e"
  by (simp add: imcodecs_def map_of_fold_update_pairs)

lemma imcodecs_jpeg: "map_of imcodecs ''jpeg'' = Some ''jpeg''"
  by (simp add: imcodecs_lookup imcodecs_table_def)

lemma imcodecs_jpg: "map_of imcodecs ''jpg'' = Some ''jpeg''"
  by (simp add: imcodecs_lookup imcodecs_table_def)

lemma lower_jpeg: "lower ''jpeg'' = ''jpeg''"
  by (simp add: lower_def lower_char_def is_upper_char_def)

lemma hint_jpeg: "imread_codecs ext (Some (Single (Codec ''jpeg''))) = [Codec ''jpeg'']"
  by (simp add: imread_codecs_def lower_jpeg imcodecs_jpeg)

lemma fallback_after_jpeg:
  "fold (\<lambda>c codecs. if c \<notin> set codecs then codecs @ [c] else codecs) fallback_codecs
     [''jpeg8'', ''jpeg12'', ''jpegsof3'', ''ljpeg''] =
   [''jpeg8'', ''jpeg12'', ''jpegsof3'', ''ljpeg'', ''tiff'', ''apng'', ''png'', ''gif'', ''webp'',
    ''jpeg2k'', ''jpegls'', ''jpegxr'', ''jpegxl'', ''avif'', ''heif'', ''zfp'', ''lerc'', ''rgbe'',
    ''numpy'']"
  by code_simp

lemma jpeg_by_extension:
  assumes "map_of imcodecs e = Some ''jpeg''"
  shows "imread_codecs (Some e) None =
           map Codec [''jpeg8'', ''jpeg12'', ''jpegsof3'', ''ljpeg'', ''tiff'', ''apng'', ''png'',
             ''gif'', ''webp'', ''jpeg2k'', ''jpegls'', ''jpegxr'', ''jpegxl'', ''avif'', ''heif'',
             ''zfp'', ''lerc'', ''rgbe'', ''numpy'']"
  unfolding imread_codecs_def
  by (simp only: option.case assms if_True Let_def fallback_after_jpeg refl)

text \<open>The generator passed to \<^verbatim>\<open>extend\<close>, over a list without repetition, adds
  the items that the list does not have yet.\<close>

lemma extend_new:
  "distinct xs \<Longrightarrow>
     fold (\<lambda>c codecs. if c \<notin> set codecs then codecs @ [c] else codecs) xs init
       = init @ filter (\<lambda>x. x \<notin> set init) xs"
proof (induction xs arbitrary: init)
  case Nil
  then show ?case by simp
next
  case (Cons x xs)
  from Cons.prems have d: "distinct xs" and x: "x \<notin> set xs" by simp_all
  show ?case
  proof (cases "x \<in> set init")
    case True
    then show ?thesis by (simp add: Cons.IH [OF d])
  next
    case False
    have "filter (\<lambda>y. y \<notin> set (init @ [x])) xs = filter (\<lambda>y. y \<notin> set init) xs"
      using x by (intro filter_cong) auto
    with False show ?thesis by (simp add: Cons.IH [OF d])
  qed
qed

lemma fallback_distinct: "distinct fallback_codecs"
  by (simp add: fallback_codecs_def)

lemma other_by_extension:
  assumes "map_of imcodecs e = Some c" and "c \<noteq> ''jpeg''"
  shows "imread_codecs (Some e) None = map Codec (c # filter (\<lambda>x. x \<noteq> c) fallback_codecs)"
  using assms by (simp add: imread_codecs_def extend_new [OF fallback_distinct])

lemma no_extension:
  "imread_codecs None None = map Codec fallback_codecs"
  "map_of imcodecs e = None \<Longrightarrow> imread_codecs (Some e) None = map Codec fallback_codecs"
  by (simp_all add: imread_codecs_def extend_new [OF fallback_distinct])

lemma hint_items:
  "imread_codecs ext (Some (Several cs)) =
     map (\<lambda>c. case c of
            Codec s \<Rightarrow>
              Codec (case map_of imcodecs (lower s) of Some codec \<Rightarrow> codec | None \<Rightarrow> lower s)
          | Callable f \<Rightarrow> Callable f
          | Nameless_Callable cls body \<Rightarrow> Nameless_Callable cls body) cs"
  by (simp add: imread_codecs_def Let_def)

lemma hint_single:
  "imread_codecs ext (Some (Single c)) = imread_codecs ext (Some (Several [c]))"
  by (simp add: imread_codecs_def)

text \<open>
  Claim C3, amended.  An explicit hint, a single item or a list, gives one candidate for
  each hinted item, in the order of the hint: a name, \<^verbatim>\<open>jpeg\<close> included, is
  lower-cased and replaced by the codec its file-extension alias stands for, if it is
  one, and is otherwise used as it is; a callable is kept.  So the hint \<^verbatim>\<open>'jpeg'\<close>,
  alone or in a list, gives the one candidate \<^verbatim>\<open>jpeg\<close>.  With no hint, the list of
  candidates is the four JPEG variants followed by the other fallback codecs where the
  extension of the file maps to \<^verbatim>\<open>jpeg\<close>; it is the codec the extension maps to,
  followed by the fallback codecs without it, where the extension maps to another codec;
  and it is the fallback codecs, of which \<^verbatim>\<open>tiff\<close> is the first, where there is no
  extension or the extension maps to no codec.
\<close>

theorem imread_codecs_hint:
  "imread_codecs ext (Some (Single c)) = imread_codecs ext (Some (Several [c]))
   \<and> imread_codecs ext (Some (Single (Codec s)))
       = [Codec (case map_of imcodecs (lower s) of Some codec \<Rightarrow> codec | None \<Rightarrow> lower s)]
   \<and> imread_codecs ext (Some (Single (Callable f))) = [Callable f]
   \<and> imread_codecs ext (Some (Single (Nameless_Callable cls body)))
       = [Nameless_Callable cls body]
   \<and> imread_codecs ext (Some (Single (Codec ''jpeg''))) = [Codec ''jpeg'']
   \<and> length (imread_codecs ext (Some (Several cs))) = length cs
   \<and> (\<forall>i s. i < length cs \<and> cs ! i = Codec s \<longrightarrow>
         imread_codecs ext (Some (Several cs)) ! i =
           Codec (case map_of imcodecs (lower s) of Some codec \<Rightarrow> codec | None \<Rightarrow> lower s))
   \<and> (\<forall>i. i < length cs \<and> cs ! i = Codec ''jpeg'' \<longrightarrow>
         imread_codecs ext (Some (Several cs)) ! i = Codec ''jpeg'')
   \<and> (\<forall>i f. i < length cs \<and> cs ! i = Callable f \<longrightarrow>
         imread_codecs ext (Some (Several cs)) ! i = Callable f)
   \<and> (\<forall>i cls body. i < length cs \<and> cs ! i = Nameless_Callable cls body \<longrightarrow>
         imread_codecs ext (Some (Several cs)) ! i = Nameless_Callable cls body)
   \<and> (\<forall>e. map_of imcodecs e = Some ''jpeg'' \<longrightarrow>
         imread_codecs (Some e) None =
           map Codec [''jpeg8'', ''jpeg12'', ''jpegsof3'', ''ljpeg'', ''tiff'', ''apng'', ''png'',
             ''gif'', ''webp'', ''jpeg2k'', ''jpegls'', ''jpegxr'', ''jpegxl'', ''avif'', ''heif'',
             ''zfp'', ''lerc'', ''rgbe'', ''numpy''])
   \<and> (\<forall>e c. map_of imcodecs e = Some c \<and> c \<noteq> ''jpeg'' \<longrightarrow>
         imread_codecs (Some e) None
           = map Codec (c # filter (\<lambda>x. x \<noteq> c) fallback_codecs))
   \<and> (\<forall>e. map_of imcodecs e = None \<longrightarrow>
         imread_codecs (Some e) None = map Codec fallback_codecs)
   \<and> imread_codecs None None = map Codec fallback_codecs
   \<and> hd fallback_codecs = ''tiff''"
proof -
  have len: "length (imread_codecs ext (Some (Several cs))) = length cs"
    by (simp add: hint_items)
  have name: "imread_codecs ext (Some (Several cs)) ! i =
           Codec (case map_of imcodecs (lower s) of Some codec \<Rightarrow> codec | None \<Rightarrow> lower s)"
    if "i < length cs" and "cs ! i = Codec s" for i s
    using that by (simp add: hint_items)
  have jpeg: "imread_codecs ext (Some (Several cs)) ! i = Codec ''jpeg''"
    if "i < length cs" and "cs ! i = Codec ''jpeg''" for i
    using name [OF that] by (simp add: lower_jpeg imcodecs_jpeg)
  have call: "imread_codecs ext (Some (Several cs)) ! i = Callable f"
    if "i < length cs" and "cs ! i = Callable f" for i f
    using that by (simp add: hint_items)
  have obj: "imread_codecs ext (Some (Several cs)) ! i = Nameless_Callable cls body"
    if "i < length cs" and "cs ! i = Nameless_Callable cls body" for i cls body
    using that by (simp add: hint_items)
  show ?thesis
  proof (intro conjI allI impI)
    show "imread_codecs ext (Some (Single c)) = imread_codecs ext (Some (Several [c]))"
      by (rule hint_single)
    show "imread_codecs ext (Some (Single (Codec s)))
       = [Codec (case map_of imcodecs (lower s) of Some codec \<Rightarrow> codec | None \<Rightarrow> lower s)]"
      by (simp add: hint_single hint_items)
    show "imread_codecs ext (Some (Single (Callable f))) = [Callable f]"
      by (simp add: hint_single hint_items)
    show "imread_codecs ext (Some (Single (Nameless_Callable cls body)))
       = [Nameless_Callable cls body]"
      by (simp add: hint_single hint_items)
    show "imread_codecs ext (Some (Single (Codec ''jpeg''))) = [Codec ''jpeg'']"
      by (rule hint_jpeg)
    show "length (imread_codecs ext (Some (Several cs))) = length cs"
      by (rule len)
    show "imread_codecs ext (Some (Several cs)) ! i =
           Codec (case map_of imcodecs (lower s) of Some codec \<Rightarrow> codec | None \<Rightarrow> lower s)"
      if "i < length cs \<and> cs ! i = Codec s" for i s
      using that name by simp
    show "imread_codecs ext (Some (Several cs)) ! i = Codec ''jpeg''"
      if "i < length cs \<and> cs ! i = Codec ''jpeg''" for i
      using that jpeg by simp
    show "imread_codecs ext (Some (Several cs)) ! i = Callable f"
      if "i < length cs \<and> cs ! i = Callable f" for i f
      using that call by simp
    show "imread_codecs ext (Some (Several cs)) ! i = Nameless_Callable cls body"
      if "i < length cs \<and> cs ! i = Nameless_Callable cls body" for i cls body
      using that obj by simp
    show "imread_codecs (Some e) None =
           map Codec [''jpeg8'', ''jpeg12'', ''jpegsof3'', ''ljpeg'', ''tiff'', ''apng'', ''png'',
             ''gif'', ''webp'', ''jpeg2k'', ''jpegls'', ''jpegxr'', ''jpegxl'', ''avif'', ''heif'',
             ''zfp'', ''lerc'', ''rgbe'', ''numpy'']"
      if "map_of imcodecs e = Some ''jpeg''" for e
      using that by (rule jpeg_by_extension)
    show "imread_codecs (Some e) None = map Codec (c # filter (\<lambda>x. x \<noteq> c) fallback_codecs)"
      if "map_of imcodecs e = Some c \<and> c \<noteq> ''jpeg''" for e c
      using that by (intro other_by_extension) simp_all
    show "imread_codecs (Some e) None = map Codec fallback_codecs"
      if "map_of imcodecs e = None" for e
      using that by (rule no_extension)
    show "imread_codecs None None = map Codec fallback_codecs"
      by (rule no_extension)
    show "hd fallback_codecs = ''tiff''"
      by (simp add: fallback_codecs_def)
  qed
qed

lemma imcodecs_png: "map_of imcodecs ''png'' = Some ''png''"
  by (simp add: imcodecs_lookup imcodecs_table_def)

lemma imcodecs_txt: "map_of imcodecs ''txt'' = None"
  by (simp add: imcodecs_lookup imcodecs_table_def)

lemma lower_JPG: "lower ''JPG'' = ''jpg''"
  by (simp add: lower_def lower_char_def is_upper_char_def)

lemma fallback_without_png:
  "filter (\<lambda>x. x \<noteq> ''png'') fallback_codecs =
     [''tiff'', ''apng'', ''gif'', ''webp'', ''jpeg8'', ''jpeg12'', ''jpegsof3'', ''jpeg2k'',
      ''jpegls'', ''jpegxr'', ''jpegxl'', ''avif'', ''heif'', ''ljpeg'', ''zfp'', ''lerc'',
      ''rgbe'', ''numpy'']"
  by (simp add: fallback_codecs_def)

theorem imread_codecs_hint_witness:
  "map_of imcodecs ''jpg'' = Some ''jpeg''
   \<and> imread_codecs (Some ''jpg'') (Some (Several [Codec ''png'', Codec ''jpeg''])) ! 1
       = Codec ''jpeg''
   \<and> imread_codecs (Some ''jpg'') (Some (Single (Codec ''JPG''))) = [Codec ''jpeg'']
   \<and> imread_codecs (Some ''jpg'') None =
        map Codec [''jpeg8'', ''jpeg12'', ''jpegsof3'', ''ljpeg'', ''tiff'', ''apng'', ''png'',
          ''gif'', ''webp'', ''jpeg2k'', ''jpegls'', ''jpegxr'', ''jpegxl'', ''avif'', ''heif'',
          ''zfp'', ''lerc'', ''rgbe'', ''numpy'']
   \<and> imread_codecs (Some ''png'') None =
        map Codec [''png'', ''tiff'', ''apng'', ''gif'', ''webp'', ''jpeg8'', ''jpeg12'',
          ''jpegsof3'', ''jpeg2k'', ''jpegls'', ''jpegxr'', ''jpegxl'', ''avif'', ''heif'',
          ''ljpeg'', ''zfp'', ''lerc'', ''rgbe'', ''numpy'']
   \<and> imread_codecs (Some ''txt'') None = map Codec fallback_codecs"
proof -
  have i: "(1::nat) < length [Codec ''png'', Codec ''jpeg'']
      \<and> [Codec ''png'', Codec ''jpeg''] ! 1 = Codec ''jpeg''"
    by simp
  note h = imread_codecs_hint [where ext = "Some ''jpg''" and c = "Codec ''JPG''"
      and s = "''JPG''" and f = none_decode and cls = "''functools.partial''"
      and body = failing_decode
      and cs = "[Codec ''png'', Codec ''jpeg'']"]
  from h have a: "\<forall>i. i < length [Codec ''png'', Codec ''jpeg'']
        \<and> [Codec ''png'', Codec ''jpeg''] ! i = Codec ''jpeg'' \<longrightarrow>
         imread_codecs (Some ''jpg'') (Some (Several [Codec ''png'', Codec ''jpeg''])) ! i
           = Codec ''jpeg''"
    by (elim conjE)
  from h have b: "\<forall>e. map_of imcodecs e = Some ''jpeg'' \<longrightarrow>
         imread_codecs (Some e) None =
           map Codec [''jpeg8'', ''jpeg12'', ''jpegsof3'', ''ljpeg'', ''tiff'', ''apng'', ''png'',
             ''gif'', ''webp'', ''jpeg2k'', ''jpegls'', ''jpegxr'', ''jpegxl'', ''avif'', ''heif'',
             ''zfp'', ''lerc'', ''rgbe'', ''numpy'']"
    by (elim conjE)
  from h have c: "\<forall>e c. map_of imcodecs e = Some c \<and> c \<noteq> ''jpeg'' \<longrightarrow>
         imread_codecs (Some e) None
           = map Codec (c # filter (\<lambda>x. x \<noteq> c) fallback_codecs)"
    by (elim conjE)
  from h have d: "\<forall>e. map_of imcodecs e = None \<longrightarrow>
         imread_codecs (Some e) None = map Codec fallback_codecs"
    by (elim conjE)
  from h have s: "imread_codecs (Some ''jpg'') (Some (Single (Codec ''JPG'')))
       = [Codec (case map_of imcodecs (lower ''JPG'') of Some codec \<Rightarrow> codec
                 | None \<Rightarrow> lower ''JPG'')]"
    by (elim conjE)
  have p: "map_of imcodecs ''png'' = Some ''png'' \<and> ''png'' \<noteq> ''jpeg''"
    by (simp add: imcodecs_png)
  show ?thesis
  proof (intro conjI)
    show "map_of imcodecs ''jpg'' = Some ''jpeg''" by (rule imcodecs_jpg)
    show "imread_codecs (Some ''jpg'') (Some (Several [Codec ''png'', Codec ''jpeg''])) ! 1
       = Codec ''jpeg''"
      by (rule a [rule_format]) (rule i)
    show "imread_codecs (Some ''jpg'') (Some (Single (Codec ''JPG''))) = [Codec ''jpeg'']"
      unfolding s lower_JPG imcodecs_jpg by simp
    show "imread_codecs (Some ''jpg'') None =
        map Codec [''jpeg8'', ''jpeg12'', ''jpegsof3'', ''ljpeg'', ''tiff'', ''apng'', ''png'',
          ''gif'', ''webp'', ''jpeg2k'', ''jpegls'', ''jpegxr'', ''jpegxl'', ''avif'', ''heif'',
          ''zfp'', ''lerc'', ''rgbe'', ''numpy'']"
      by (rule b [rule_format]) (rule imcodecs_jpg)
    show "imread_codecs (Some ''png'') None =
        map Codec [''png'', ''tiff'', ''apng'', ''gif'', ''webp'', ''jpeg8'', ''jpeg12'',
          ''jpegsof3'', ''jpeg2k'', ''jpegls'', ''jpegxr'', ''jpegxl'', ''avif'', ''heif'',
          ''ljpeg'', ''zfp'', ''lerc'', ''rgbe'', ''numpy'']"
      unfolding c [rule_format, OF p] fallback_without_png by (rule refl)
    show "imread_codecs (Some ''txt'') None = map Codec fallback_codecs"
      by (rule d [rule_format]) (rule imcodecs_txt)
  qed
qed

text \<open>The claim as stated fails: with the hint \<^verbatim>\<open>'jpeg'\<close> the list of candidates
  is the single \<^verbatim>\<open>jpeg\<close>, not the four variants.\<close>

theorem imread_codecs_hint_counterexample:
  "imread_codecs (Some ''jpg'') (Some (Single (Codec ''jpeg''))) = [Codec ''jpeg'']
   \<and> imread_codecs (Some ''jpg'') (Some (Single (Codec ''jpeg'')))
       \<noteq> [Codec ''jpeg8'', Codec ''jpeg12'', Codec ''jpegsof3'', Codec ''ljpeg'']"
  by (simp add: hint_jpeg)

section \<open>Generic read: the trial loop\<close>

lemma except_clauses_no_break: "except_clauses f exc t \<noteq> Break t'"
  by (simp add: except_clauses_def split: option.splits)

lemma try_decode_raises:
  "py_call f [data] kwargs = Inl exc \<Longrightarrow>
     try_decode data kwargs f t = except_clauses f exc (t\<lparr>func := Some f\<rparr>)"
  by (simp add: try_decode_def)

lemma try_decode_typed:
  "py_call f [data] kwargs = Inr img \<Longrightarrow> dtype_of img = Some d \<Longrightarrow> d \<noteq> ''object'' \<Longrightarrow>
     try_decode data kwargs f t = Break (t\<lparr>func := Some f, image := img\<rparr>)"
  by (simp add: try_decode_def)

lemma try_decode_object:
  "py_call f [data] kwargs = Inr img \<Longrightarrow> dtype_of img = Some ''object'' \<Longrightarrow>
     try_decode data kwargs f t =
       except_clauses f (ValueError ''failed'') (t\<lparr>func := Some f, image := PyNone\<rparr>)"
  by (simp add: try_decode_def)

lemma try_decode_untyped:
  "py_call f [data] kwargs = Inr img \<Longrightarrow> dtype_of img = None \<Longrightarrow>
     try_decode data kwargs f t =
       except_clauses f
         (AttributeError (repr (type_name img) @ '' object has no attribute 'dtype'' @ [CHR 0x27]))
         (t\<lparr>func := Some f, image := img\<rparr>)"
  by (simp add: try_decode_def)

text \<open>A returned value without a dtype is recorded like a raised exception, but stays
  the value of \<^verbatim>\<open>image\<close>.\<close>

lemma untyped_result_kept:
  assumes "py_call f [data] kwargs = Inr img" and "dtype_of img = None"
    and "py_name f = Some name"
  shows "try_decode data kwargs f t =
           Continue (t\<lparr>func := Some f, image := img,
                       exceptions := exceptions t @
                         [upper name @ '': '' @ repr (type_name img)
                            @ '' object has no attribute 'dtype'' @ [CHR 0x27]]\<rparr>)"
  using assms by (simp add: try_decode_untyped except_clauses_def)

lemma try_decode_break:
  "(\<exists>t'. try_decode data kwargs f t = Break t') \<longleftrightarrow>
     (\<exists>img dtype. py_call f [data] kwargs = Inr img \<and> dtype_of img = Some dtype
        \<and> dtype \<noteq> ''object'')"
proof (cases "py_call f [data] kwargs")
  case (Inl exc)
  then show ?thesis by (simp add: try_decode_raises except_clauses_no_break)
next
  case (Inr img)
  show ?thesis
  proof (cases "dtype_of img")
    case None
    then show ?thesis using Inr by (simp add: try_decode_untyped except_clauses_no_break)
  next
    case (Some d)
    show ?thesis
    proof (cases "d = ''object''")
      case True
      then show ?thesis using Inr Some by (simp add: try_decode_object except_clauses_no_break)
    next
      case False
      then show ?thesis using Inr Some by (simp add: try_decode_typed)
    qed
  qed
qed

lemma try_codec_resolved:
  "resolve_decode env c (modstate t) = (Inr f, st') \<Longrightarrow>
     try_codec env data kwargs c t = try_decode data kwargs f (t\<lparr>modstate := st'\<rparr>)"
  by (cases c) auto

lemma try_codec_unresolved:
  "resolve_decode env (Codec codec) (modstate t) = (Inl exc, st') \<Longrightarrow>
     try_codec env data kwargs (Codec codec) t =
       Continue (t\<lparr>exceptions := exceptions t @ [upper (repr codec) @ '': '' @ str_exn exc],
                   modstate := st'\<rparr>)"
  by simp

lemma typed_not_None: "dtype_of img = Some d \<Longrightarrow> img \<noteq> PyNone"
  by (cases img) auto

lemma resolve_callable_only_Inr:
  "resolve_decode env c st = (Inl exc, st') \<Longrightarrow> \<exists>codec. c = Codec codec"
  by (cases c) auto

lemma try_codec_fails:
  assumes r: "resolve_decode env c (modstate t) = (Inr f, st')"
    and d: "decode_fails data kwargs f"
    and i: "image t = PyNone"
  shows "\<exists>t'. try_codec env data kwargs c t = Continue t' \<and> image t' = PyNone
           \<and> modstate t' = st'
           \<and> exceptions t' = exceptions t @ decode_diagnostic data kwargs f"
proof -
  note step = try_codec_resolved [OF r]
  show ?thesis
  proof (cases "py_call f [data] kwargs")
    case (Inl exc)
    show ?thesis
    proof (cases "is_DelayedImportError exc")
      case True
      then show ?thesis
        using i by (simp add: step try_decode_raises [OF Inl] except_clauses_def
            decode_diagnostic_def Inl)
    next
      case False
      with d Inl obtain name where name: "py_name f = Some name"
        by (auto simp: decode_fails_def)
      show ?thesis
        using i False
        by (simp add: step try_decode_raises [OF Inl] except_clauses_def decode_diagnostic_def
            Inl name)
    qed
  next
    case (Inr img)
    with d have o: "dtype_of img = Some ''object''" and "py_name f \<noteq> None"
      by (simp_all add: decode_fails_def)
    then obtain name where name: "py_name f = Some name" by auto
    show ?thesis
      by (simp add: step try_decode_object [OF Inr o] except_clauses_def decode_diagnostic_def
          name Inr o)
  qed
qed

lemma candidate_lines_unresolved:
  "resolve_decode env (Codec codec) st = (Inl exc, st') \<Longrightarrow>
     candidate_lines env data kwargs (Codec codec) st = [upper (repr codec) @ '': '' @ str_exn exc]"
  by (simp add: candidate_lines_def)

lemma candidate_lines_resolved:
  "resolve_decode env c st = (Inr f, st') \<Longrightarrow>
     candidate_lines env data kwargs c st = decode_diagnostic data kwargs f"
  by (simp add: candidate_lines_def)

lemma trial_loop_failing_prefix:
  assumes "all_fail env data kwargs pre (modstate t)" and "image t = PyNone"
  shows "\<exists>t1. trial_loop env data kwargs pre t = Inr t1 \<and> image t1 = PyNone
           \<and> exceptions t1 = exceptions t @ diagnostics env data kwargs pre (modstate t)
           \<and> (\<forall>rest. trial_loop env data kwargs (pre @ rest) t
                         = trial_loop env data kwargs rest t1)"
  using assms
proof (induction pre arbitrary: t)
  case Nil
  then show ?case by simp
next
  case (Cons c cs)
  obtain r st' where res: "resolve_decode env c (modstate t) = (r, st')"
    by (cases "resolve_decode env c (modstate t)")
  have after: "state_after env c (modstate t) = st'"
    by (simp add: state_after_def res)
  from Cons.prems(1) have cf: "candidate_fails env data kwargs c (modstate t)"
    and af: "all_fail env data kwargs cs st'"
    by (simp_all add: after)
  have "\<exists>t1. try_codec env data kwargs c t = Continue t1 \<and> image t1 = PyNone
          \<and> modstate t1 = st'
          \<and> exceptions t1 = exceptions t @ candidate_lines env data kwargs c (modstate t)"
  proof (cases r)
    case (Inl exc)
    with res obtain codec where c: "c = Codec codec"
      using resolve_callable_only_Inr by blast
    have "try_codec env data kwargs c t =
            Continue (t\<lparr>exceptions := exceptions t @ [upper (repr codec) @ '': '' @ str_exn exc],
                        modstate := st'\<rparr>)"
      using res Inl unfolding c by (simp only: try_codec_unresolved)
    moreover have "candidate_lines env data kwargs c (modstate t)
                     = [upper (repr codec) @ '': '' @ str_exn exc]"
      using res Inl unfolding c by (simp only: candidate_lines_unresolved)
    ultimately show ?thesis using Cons.prems(2) by simp
  next
    case (Inr f)
    have d: "decode_fails data kwargs f"
      using cf res Inr by (simp add: candidate_fails_def)
    from try_codec_fails [OF res [unfolded Inr] d Cons.prems(2)]
    show ?thesis by (simp only: candidate_lines_resolved [OF res [unfolded Inr]])
  qed
  then obtain t1 where
    step: "try_codec env data kwargs c t = Continue t1" and im: "image t1 = PyNone"
    and ms: "modstate t1 = st'"
    and ex: "exceptions t1 = exceptions t @ candidate_lines env data kwargs c (modstate t)"
    by blast
  from Cons.IH [OF af [folded ms] im] obtain t' where
    l: "trial_loop env data kwargs cs t1 = Inr t'" and i: "image t' = PyNone"
    and e: "exceptions t' = exceptions t1 @ diagnostics env data kwargs cs (modstate t1)"
    and p: "\<forall>rest. trial_loop env data kwargs (cs @ rest) t1
                    = trial_loop env data kwargs rest t'"
    by blast
  have "trial_loop env data kwargs (c # cs) t = Inr t'"
    by (simp only: trial_loop.simps step flow.case l)
  moreover have "exceptions t' = exceptions t @ diagnostics env data kwargs (c # cs) (modstate t)"
    by (simp add: e ex ms after)
  moreover have "\<forall>rest. trial_loop env data kwargs ((c # cs) @ rest) t
                    = trial_loop env data kwargs rest t'"
  proof
    fix rest
    have "trial_loop env data kwargs (c # (cs @ rest)) t
            = trial_loop env data kwargs (cs @ rest) t1"
      by (simp only: trial_loop.simps step flow.case)
    also have "\<dots> = trial_loop env data kwargs rest t'"
      by (rule p [rule_format])
    finally show "trial_loop env data kwargs ((c # cs) @ rest) t
                    = trial_loop env data kwargs rest t'"
      by (simp only: append_Cons)
  qed
  ultimately show ?case using i by blast
qed

text \<open>
  One round of the loop.  Take a candidate whose decode function \<open>f\<close> has been resolved.  The loop
  stops at the candidate exactly when the call of \<open>f\<close> returns a value that has a dtype
  other than \<^verbatim>\<open>object\<close>; the loop then ends with that value as the image, no later
  candidate is tried, and \<^verbatim>\<open>imread\<close> returns it when the candidates before this one
  have all failed.  If the call raises
  \<^verbatim>\<open>DelayedImportError\<close>, the loop goes on to the next candidate with the list of
  diagnostics unchanged.  If it raises anything else, or returns an array of dtype
  \<^verbatim>\<open>object\<close>, the loop goes on to the next candidate with one more diagnostic: the
  upper-cased name of \<open>f\<close>, a colon, and the message (\<^verbatim>\<open>failed\<close> for the array).
\<close>

lemma trial_outcomes:
  assumes r: "resolve_decode env c (modstate t) = (Inr f, st')"
  shows "((\<exists>t'. try_codec env data kwargs c t = Break t') \<longleftrightarrow>
            (\<exists>img dtype. py_call f [data] kwargs = Inr img \<and> dtype_of img = Some dtype
               \<and> dtype \<noteq> ''object''))
       \<and> (\<forall>img dtype. py_call f [data] kwargs = Inr img \<and> dtype_of img = Some dtype
               \<and> dtype \<noteq> ''object'' \<longrightarrow>
             trial_loop env data kwargs (c # cs) t
               = Inr (t\<lparr>modstate := st', func := Some f, image := img\<rparr>)
             \<and> (\<forall>pre st0. all_fail env data kwargs pre st0
                    \<and> trial_loop env data kwargs pre (initial_trial st0) = Inr t \<longrightarrow>
                  imread_from env st0 data (pre @ c # cs) False kwargs = Inr (Image img)))
       \<and> (\<forall>exc. py_call f [data] kwargs = Inl exc \<and> is_DelayedImportError exc \<longrightarrow>
             trial_loop env data kwargs (c # cs) t
               = trial_loop env data kwargs cs (t\<lparr>modstate := st', func := Some f\<rparr>))
       \<and> (\<forall>exc name. py_call f [data] kwargs = Inl exc \<and> \<not> is_DelayedImportError exc
               \<and> py_name f = Some name \<longrightarrow>
             trial_loop env data kwargs (c # cs) t
               = trial_loop env data kwargs cs
                   (t\<lparr>modstate := st', func := Some f,
                      exceptions := exceptions t @ [upper name @ '': '' @ str_exn exc]\<rparr>))
       \<and> (\<forall>img name. py_call f [data] kwargs = Inr img \<and> dtype_of img = Some ''object''
               \<and> py_name f = Some name \<longrightarrow>
             trial_loop env data kwargs (c # cs) t
               = trial_loop env data kwargs cs
                   (t\<lparr>modstate := st', func := Some f, image := PyNone,
                      exceptions := exceptions t @ [upper name @ '': failed'']\<rparr>))"
proof (intro conjI allI impI)
  note step = try_codec_resolved [OF r]
  show "(\<exists>t'. try_codec env data kwargs c t = Break t') \<longleftrightarrow>
          (\<exists>img dtype. py_call f [data] kwargs = Inr img \<and> dtype_of img = Some dtype
             \<and> dtype \<noteq> ''object'')"
    by (simp only: step try_decode_break)
  show "trial_loop env data kwargs (c # cs) t
          = Inr (t\<lparr>modstate := st', func := Some f, image := img\<rparr>)"
    if "py_call f [data] kwargs = Inr img \<and> dtype_of img = Some dtype \<and> dtype \<noteq> ''object''"
    for img dtype
    using that by (simp add: step try_decode_typed)
  show "imread_from env st0 data (pre @ c # cs) False kwargs = Inr (Image img)"
    if ok: "py_call f [data] kwargs = Inr img \<and> dtype_of img = Some dtype \<and> dtype \<noteq> ''object''"
      and pre: "all_fail env data kwargs pre st0
                  \<and> trial_loop env data kwargs pre (initial_trial st0) = Inr t"
    for img dtype pre st0
  proof -
    have "all_fail env data kwargs pre (modstate (initial_trial st0))"
      and "image (initial_trial st0) = PyNone"
      using pre by (simp_all add: initial_trial_def)
    from trial_loop_failing_prefix [OF this] pre
    have "trial_loop env data kwargs (pre @ c # cs) (initial_trial st0)
            = trial_loop env data kwargs (c # cs) t"
      by auto
    also have "\<dots> = Inr (t\<lparr>modstate := st', func := Some f, image := img\<rparr>)"
      using ok by (simp add: step try_decode_typed)
    finally have l: "trial_loop env data kwargs (pre @ c # cs) (initial_trial st0)
            = Inr (t\<lparr>modstate := st', func := Some f, image := img\<rparr>)" .
    have "img \<noteq> PyNone" using ok typed_not_None by blast
    then show ?thesis
      using l by (simp add: imread_from_def initial_trial_def)
  qed
  show "trial_loop env data kwargs (c # cs) t
          = trial_loop env data kwargs cs (t\<lparr>modstate := st', func := Some f\<rparr>)"
    if "py_call f [data] kwargs = Inl exc \<and> is_DelayedImportError exc" for exc
    using that by (simp add: step try_decode_raises except_clauses_def)
  show "trial_loop env data kwargs (c # cs) t
          = trial_loop env data kwargs cs
              (t\<lparr>modstate := st', func := Some f,
                 exceptions := exceptions t @ [upper name @ '': '' @ str_exn exc]\<rparr>)"
    if "py_call f [data] kwargs = Inl exc \<and> \<not> is_DelayedImportError exc
          \<and> py_name f = Some name" for exc name
    using that by (simp add: step try_decode_raises except_clauses_def)
  show "trial_loop env data kwargs (c # cs) t
          = trial_loop env data kwargs cs
              (t\<lparr>modstate := st', func := Some f, image := PyNone,
                 exceptions := exceptions t @ [upper name @ '': failed'']\<rparr>)"
    if "py_call f [data] kwargs = Inr img \<and> dtype_of img = Some ''object''
          \<and> py_name f = Some name" for img name
    using that by (simp add: step try_decode_object except_clauses_def)
qed

lemma none_decode_call: "py_call (Function none_decode) [data] [] = Inr data"
  by (simp add: none_decode_def bind_data_def)

lemma none_decode_name: "py_name (Function none_decode) = Some ''none_decode''"
  by (simp add: none_decode_def)

lemma upper_none_decode: "upper ''none_decode'' = ''NONE_DECODE''"
  by (simp add: upper_def upper_char_def is_lower_char_def)

lemma szip_unresolved:
  "module_getattr no_backends fresh_state ''szip_decode'' =
     (Inl (AttributeError (''module 'imagecodecs' has no attribute 'szip_decode'' @ [CHR 0x27])),
      fresh_state)"
proof -
  have ns: "namespace fresh_state ''szip_decode'' = None"
    by (simp add: fresh_state_def none_namespace_def)
  have canon: "map_of COMPATIBILITY ''szip_decode'' = None"
    by (simp add: COMPATIBILITY_def)
  have r: "repr ''szip_decode'' = CHR 0x27 # ''szip_decode'' @ [CHR 0x27]"
    by (rule repr_plain) (simp add: is_lower_char_def)
  show ?thesis
    by (simp add: module_getattr_def ns dunder_getattr_def canon owner_szip_decode r)
qed

lemma trial_outcomes_example:
  "imread_from no_backends fresh_state (NDArray ''uint8'' [1] ''a'')
       [Codec ''szip'', Callable none_decode] False []
     = Inr (Image (NDArray ''uint8'' [1] ''a''))
   \<and> trial_loop no_backends (NDArray ''object'' [1] ''a'') [] [Callable none_decode]
        (initial_trial fresh_state)
     = Inr ((initial_trial fresh_state)
              \<lparr>modstate := fresh_state, func := Some (Function none_decode), image := PyNone,
                 exceptions := [''NONE_DECODE: failed'']\<rparr>)"
proof -
  let ?line = "upper (repr ''szip'') @ '': ''
      @ str_exn (AttributeError
          (''module 'imagecodecs' has no attribute 'szip_decode'' @ [CHR 0x27]))"
  let ?t = "(initial_trial fresh_state)\<lparr>exceptions := [?line], modstate := fresh_state\<rparr>"
  have r0: "resolve_decode no_backends (Callable none_decode) (modstate (initial_trial fresh_state))
             = (Inr (Function none_decode), fresh_state)"
    by (simp add: initial_trial_def)
  have r1: "resolve_decode no_backends (Callable none_decode) (modstate ?t)
             = (Inr (Function none_decode), fresh_state)"
    by simp
  have pre: "all_fail no_backends (NDArray ''uint8'' [1] ''a'') [] [Codec ''szip''] fresh_state
      \<and> trial_loop no_backends (NDArray ''uint8'' [1] ''a'') [] [Codec ''szip'']
            (initial_trial fresh_state) = Inr ?t"
    by (simp add: szip_unresolved initial_trial_def candidate_fails_def state_after_def)
  note w1 = trial_outcomes [OF r1, of "NDArray ''uint8'' [1] ''a''" "[]" "[]"]
  note w2 = trial_outcomes [OF r0, of "NDArray ''object'' [1] ''a''" "[]" "[]"]
  have p1: "py_call (Function none_decode) [NDArray ''uint8'' [1] ''a''] []
               = Inr (NDArray ''uint8'' [1] ''a'')
             \<and> dtype_of (NDArray ''uint8'' [1] ''a'') = Some ''uint8'' \<and> ''uint8'' \<noteq> ''object''"
    by (intro conjI none_decode_call) simp_all
  have p2: "py_call (Function none_decode) [NDArray ''object'' [1] ''a''] []
               = Inr (NDArray ''object'' [1] ''a'')
             \<and> dtype_of (NDArray ''object'' [1] ''a'') = Some ''object''
             \<and> py_name (Function none_decode) = Some ''none_decode''"
    by (intro conjI none_decode_call none_decode_name) simp_all
  from w1 have a: "\<forall>img dtype. py_call (Function none_decode) [NDArray ''uint8'' [1] ''a''] [] = Inr img
        \<and> dtype_of img = Some dtype \<and> dtype \<noteq> ''object'' \<longrightarrow>
      trial_loop no_backends (NDArray ''uint8'' [1] ''a'') [] [Callable none_decode] ?t
        = Inr (?t\<lparr>modstate := fresh_state, func := Some (Function none_decode), image := img\<rparr>)
      \<and> (\<forall>pre st0. all_fail no_backends (NDArray ''uint8'' [1] ''a'') [] pre st0
             \<and> trial_loop no_backends (NDArray ''uint8'' [1] ''a'') [] pre (initial_trial st0)
                 = Inr ?t \<longrightarrow>
           imread_from no_backends st0 (NDArray ''uint8'' [1] ''a'')
             (pre @ [Callable none_decode]) False [] = Inr (Image img))"
    by (elim conjE) assumption
  from w2 have b: "\<forall>img name. py_call (Function none_decode) [NDArray ''object'' [1] ''a''] [] = Inr img
        \<and> dtype_of img = Some ''object'' \<and> py_name (Function none_decode) = Some name \<longrightarrow>
      trial_loop no_backends (NDArray ''object'' [1] ''a'') [] [Callable none_decode]
          (initial_trial fresh_state)
        = trial_loop no_backends (NDArray ''object'' [1] ''a'') [] []
            ((initial_trial fresh_state)
               \<lparr>modstate := fresh_state, func := Some (Function none_decode), image := PyNone,
                  exceptions := exceptions (initial_trial fresh_state) @ [upper name @ '': failed'']\<rparr>)"
    by (elim conjE) assumption
  from a [rule_format, OF p1]
  have "\<forall>pre st0. all_fail no_backends (NDArray ''uint8'' [1] ''a'') [] pre st0
             \<and> trial_loop no_backends (NDArray ''uint8'' [1] ''a'') [] pre (initial_trial st0)
                 = Inr ?t \<longrightarrow>
           imread_from no_backends st0 (NDArray ''uint8'' [1] ''a'')
             (pre @ [Callable none_decode]) False [] = Inr (Image (NDArray ''uint8'' [1] ''a''))"
    by (rule conjunct2)
  from this [rule_format, OF pre]
  have "imread_from no_backends fresh_state (NDArray ''uint8'' [1] ''a'')
             [Codec ''szip'', Callable none_decode] False []
          = Inr (Image (NDArray ''uint8'' [1] ''a''))"
    by simp
  moreover have "trial_loop no_backends (NDArray ''object'' [1] ''a'') [] [Callable none_decode]
        (initial_trial fresh_state)
     = Inr ((initial_trial fresh_state)
              \<lparr>modstate := fresh_state, func := Some (Function none_decode), image := PyNone,
                 exceptions := [''NONE_DECODE: failed'']\<rparr>)"
    unfolding b [rule_format, OF p2]
    by (simp add: upper_none_decode initial_trial_def)
  ultimately show ?thesis by (rule conjI)
qed

text \<open>
  Claim C4.  For a candidate whose decode function has a \<^verbatim>\<open>__name__\<close> the loop does
  what the claim says (\<open>trial_outcomes\<close>).  The handler of the loop reads
  \<^verbatim>\<open>func.__name__\<close> to record the diagnostic.  A callable object, such as a
  \<^verbatim>\<open>functools.partial\<close>, has no \<^verbatim>\<open>__name__\<close>: when its call raises another
  exception than \<^verbatim>\<open>DelayedImportError\<close>, reading the name raises
  \<^verbatim>\<open>AttributeError\<close> inside the handler and that exception leaves \<^verbatim>\<open>imread\<close>.  No
  diagnostic is recorded and no later candidate is tried, whatever the later candidates
  are.  The same decoder given as a function named \<^verbatim>\<open>decode\<close> is recorded and the
  loop goes on.
\<close>

theorem nameless_callable_stops_loop:
  "try_codec env data kwargs (Nameless_Callable ''functools.partial'' failing_decode) t
     = Raised (no_name_error failing_partial)
   \<and> trial_loop env data kwargs
         (Nameless_Callable ''functools.partial'' failing_decode # cs) t
       = Inl (no_name_error failing_partial)
   \<and> imread env st data ext
         (Some (Several (Nameless_Callable ''functools.partial'' failing_decode # cs)))
         return_codec kwargs
       = Inl (no_name_error failing_partial)
   \<and> str_exn (no_name_error failing_partial)
       = CHR 0x27 # ''functools.partial'' @ [CHR 0x27]
           @ '' object has no attribute '__name__'' @ [CHR 0x27]
   \<and> is_AttributeError (no_name_error failing_partial)
   \<and> try_codec env data kwargs (Callable (Func ''decode'' failing_decode)) t
       = Continue (t\<lparr>func := Some (Function (Func ''decode'' failing_decode)),
                     exceptions := exceptions t @ [''DECODE: not an image'']\<rparr>)"
proof -
  have u: "upper ''decode'' = ''DECODE''"
    by (simp add: upper_def upper_char_def is_lower_char_def)
  have a: "try_codec env data kwargs (Nameless_Callable ''functools.partial'' failing_decode) t
     = Raised (no_name_error failing_partial)" for t
    by (simp add: try_decode_def except_clauses_def failing_decode_def failing_partial_def)
  have b: "trial_loop env data kwargs
         (Nameless_Callable ''functools.partial'' failing_decode # cs) t
       = Inl (no_name_error failing_partial)" for t cs
    by (simp only: trial_loop.simps a flow.case)
  have c: "imread env st data ext
         (Some (Several (Nameless_Callable ''functools.partial'' failing_decode # cs)))
         return_codec kwargs
       = Inl (no_name_error failing_partial)"
    unfolding imread_def hint_items list.map candidate.case imread_from_def
    by (simp only: b sum.case)
  have m: "str_exn (no_name_error failing_partial)
       = CHR 0x27 # ''functools.partial'' @ [CHR 0x27]
           @ '' object has no attribute '__name__'' @ [CHR 0x27]"
    by (simp add: no_name_error_def failing_partial_def)
  have e: "is_AttributeError (no_name_error failing_partial)"
    by (simp add: no_name_error_def)
  have d: "try_codec env data kwargs (Callable (Func ''decode'' failing_decode)) t
       = Continue (t\<lparr>func := Some (Function (Func ''decode'' failing_decode)),
                     exceptions := exceptions t @ [''DECODE: not an image'']\<rparr>)"
    by (simp add: try_decode_def except_clauses_def failing_decode_def u)
  from a b c m e d show ?thesis by (intro conjI)
qed

theorem nameless_callable_stops_loop_witness:
  "imread no_backends fresh_state (NDArray ''uint8'' [1] ''a'') None
       (Some (Several [Nameless_Callable ''functools.partial'' failing_decode,
                       Callable none_decode])) False []
     = Inl (no_name_error failing_partial)
   \<and> imread no_backends fresh_state (NDArray ''uint8'' [1] ''a'') None
       (Some (Several [Callable (Func ''decode'' failing_decode), Callable none_decode])) False []
     = Inr (Image (NDArray ''uint8'' [1] ''a''))"
proof -
  note w = nameless_callable_stops_loop [of no_backends "NDArray ''uint8'' [1] ''a''" "[]"
      "initial_trial fresh_state" "[Callable none_decode]" fresh_state None False]
  from w have "imread no_backends fresh_state (NDArray ''uint8'' [1] ''a'') None
       (Some (Several [Nameless_Callable ''functools.partial'' failing_decode,
                       Callable none_decode])) False []
     = Inl (no_name_error failing_partial)"
    by (elim conjE)
  moreover have "imread no_backends fresh_state (NDArray ''uint8'' [1] ''a'') None
       (Some (Several [Callable (Func ''decode'' failing_decode), Callable none_decode])) False []
     = Inr (Image (NDArray ''uint8'' [1] ''a''))"
    unfolding imread_def hint_items list.map candidate.case imread_from_def
    by (simp add: try_decode_def except_clauses_def failing_decode_def none_decode_def
        bind_data_def)
  ultimately show ?thesis by (rule conjI)
qed

lemma imread_from_all_fail:
  assumes "all_fail env data kwargs cs st"
  shows "imread_from env st data cs return_codec kwargs =
           Inl (ValueError (join [CHR 0x0A] (diagnostics env data kwargs cs st)))"
proof -
  let ?t = "\<lparr>exceptions = [], image = PyNone, func = None, modstate = st\<rparr>"
  have "all_fail env data kwargs cs (modstate ?t)" and "image ?t = PyNone"
    using assms by simp_all
  from trial_loop_failing_prefix [OF this] obtain t' where
    "trial_loop env data kwargs cs ?t = Inr t'" and "image t' = PyNone"
    and "exceptions t' = exceptions ?t @ diagnostics env data kwargs cs (modstate ?t)"
    by blast
  then show ?thesis by (simp add: imread_from_def)
qed

lemma candidate_lines_delayed:
  assumes "resolve_decode env c st = (Inr f, st')" and "py_call f [data] kwargs = Inl exc"
    and "is_DelayedImportError exc"
  shows "candidate_lines env data kwargs c st = []"
  using assms by (simp add: candidate_lines_def decode_diagnostic_def)

lemma candidate_lines_raised:
  assumes "resolve_decode env c st = (Inr f, st')" and "py_call f [data] kwargs = Inl exc"
    and "\<not> is_DelayedImportError exc" and "py_name f = Some tag"
  shows "candidate_lines env data kwargs c st = [upper tag @ '': '' @ str_exn exc]"
  using assms by (simp add: candidate_lines_def decode_diagnostic_def)

lemma candidate_lines_object:
  assumes "resolve_decode env c st = (Inr f, st')" and "py_call f [data] kwargs = Inr img"
    and "dtype_of img = Some ''object''" and "py_name f = Some tag"
  shows "candidate_lines env data kwargs c st = [upper tag @ '': failed'']"
  using assms by (simp add: candidate_lines_def decode_diagnostic_def)

lemma candidate_fails_cases:
  "candidate_fails env data kwargs c st \<longleftrightarrow>
     (\<exists>exc st'. resolve_decode env c st = (Inl exc, st'))
     \<or> (\<exists>f st'. resolve_decode env c st = (Inr f, st')
           \<and> ((\<exists>exc. py_call f [data] kwargs = Inl exc
                  \<and> (is_DelayedImportError exc \<or> py_name f \<noteq> None))
              \<or> (\<exists>img. py_call f [data] kwargs = Inr img \<and> dtype_of img = Some ''object''
                    \<and> py_name f \<noteq> None)))"
proof -
  obtain r st' where res: "resolve_decode env c st = (r, st')"
    by (cases "resolve_decode env c st")
  show ?thesis
  proof (cases r)
    case (Inl exc)
    then show ?thesis by (simp add: candidate_fails_def res)
  next
    case (Inr f)
    show ?thesis
      by (cases "py_call f [data] kwargs") (simp_all add: candidate_fails_def res Inr
          decode_fails_def)
  qed
qed

lemma upper_decode: "upper (name @ ''_decode'') = upper name @ ''_DECODE''"
  by (simp add: upper_def upper_char_def is_lower_char_def)

text \<open>
  Claim C5, amended.  Let every candidate of the list \<^verbatim>\<open>imread\<close> builds fail: its
  decode function cannot be resolved, or the call of the function raises
  \<^verbatim>\<open>DelayedImportError\<close>, or the function has a \<^verbatim>\<open>__name__\<close> and its call raises
  another exception or returns an array of dtype \<^verbatim>\<open>object\<close>.  Then \<^verbatim>\<open>imread\<close>
  raises one \<^verbatim>\<open>ValueError\<close> whose message is the lines recorded for the candidates,
  in the order of the candidates, joined by newlines.  A candidate whose call raised
  \<^verbatim>\<open>DelayedImportError\<close> has no line, so the message may be empty.  Every other
  candidate has one line: a tag, a colon and the message of its exception
  (\<^verbatim>\<open>failed\<close> for the array).  The tag is the upper-cased \<^verbatim>\<open>__name__\<close> of the
  candidate's decode function, which is \<^verbatim>\<open>PNG_DECODE\<close> for a function named
  \<^verbatim>\<open>png_decode\<close> and the own name of a function given as candidate; it is the
  upper-cased \<^verbatim>\<open>repr\<close> of the codec name where the function could not be resolved.
\<close>

theorem imread_all_fail:
  assumes "all_fail env data kwargs (imread_codecs ext codec) st"
  shows "imread env st data ext codec return_codec kwargs =
           Inl (ValueError (join [CHR 0x0A]
                  (diagnostics env data kwargs (imread_codecs ext codec) st)))
       \<and> diagnostics env data kwargs [] st1 = []
       \<and> diagnostics env data kwargs (c # cs) st1
           = candidate_lines env data kwargs c st1
             @ diagnostics env data kwargs cs (snd (resolve_decode env c st1))
       \<and> (all_fail env data kwargs (c # cs) st1 \<longleftrightarrow>
            candidate_fails env data kwargs c st1
            \<and> all_fail env data kwargs cs (snd (resolve_decode env c st1)))
       \<and> (candidate_fails env data kwargs c st1 \<longleftrightarrow>
            (\<exists>exc st2. resolve_decode env c st1 = (Inl exc, st2))
            \<or> (\<exists>f st2. resolve_decode env c st1 = (Inr f, st2)
                  \<and> ((\<exists>exc. py_call f [data] kwargs = Inl exc
                         \<and> (is_DelayedImportError exc \<or> py_name f \<noteq> None))
                     \<or> (\<exists>img. py_call f [data] kwargs = Inr img
                           \<and> dtype_of img = Some ''object'' \<and> py_name f \<noteq> None))))
       \<and> (\<forall>name exc st2. resolve_decode env (Codec name) st1 = (Inl exc, st2) \<longrightarrow>
             candidate_lines env data kwargs (Codec name) st1
               = [upper (repr name) @ '': '' @ str_exn exc])
       \<and> (\<forall>f exc st2. resolve_decode env c st1 = (Inr f, st2)
               \<and> py_call f [data] kwargs = Inl exc \<and> is_DelayedImportError exc \<longrightarrow>
             candidate_lines env data kwargs c st1 = [])
       \<and> (\<forall>f exc tag st2. resolve_decode env c st1 = (Inr f, st2)
               \<and> py_call f [data] kwargs = Inl exc \<and> \<not> is_DelayedImportError exc
               \<and> py_name f = Some tag \<longrightarrow>
             candidate_lines env data kwargs c st1 = [upper tag @ '': '' @ str_exn exc])
       \<and> (\<forall>f img tag st2. resolve_decode env c st1 = (Inr f, st2)
               \<and> py_call f [data] kwargs = Inr img \<and> dtype_of img = Some ''object''
               \<and> py_name f = Some tag \<longrightarrow>
             candidate_lines env data kwargs c st1 = [upper tag @ '': failed''])
       \<and> upper (name @ ''_decode'') = upper name @ ''_DECODE''
       \<and> resolve_decode env (Callable g) st1 = (Inr (Function g), st1)
       \<and> py_name (Function g) = Some (func_name g)"
proof (intro conjI allI impI)
  show "imread env st data ext codec return_codec kwargs =
           Inl (ValueError (join [CHR 0x0A]
                  (diagnostics env data kwargs (imread_codecs ext codec) st)))"
    using imread_from_all_fail [OF assms] by (simp add: imread_def)
  show "diagnostics env data kwargs [] st1 = []" by simp
  show "diagnostics env data kwargs (c # cs) st1
           = candidate_lines env data kwargs c st1
             @ diagnostics env data kwargs cs (snd (resolve_decode env c st1))"
    by (simp add: state_after_def)
  show "all_fail env data kwargs (c # cs) st1 \<longleftrightarrow>
            candidate_fails env data kwargs c st1
            \<and> all_fail env data kwargs cs (snd (resolve_decode env c st1))"
    by (simp add: state_after_def)
  show "candidate_fails env data kwargs c st1 \<longleftrightarrow>
            (\<exists>exc st2. resolve_decode env c st1 = (Inl exc, st2))
            \<or> (\<exists>f st2. resolve_decode env c st1 = (Inr f, st2)
                  \<and> ((\<exists>exc. py_call f [data] kwargs = Inl exc
                         \<and> (is_DelayedImportError exc \<or> py_name f \<noteq> None))
                     \<or> (\<exists>img. py_call f [data] kwargs = Inr img
                           \<and> dtype_of img = Some ''object'' \<and> py_name f \<noteq> None)))"
    by (rule candidate_fails_cases)
  show "candidate_lines env data kwargs (Codec name) st1
               = [upper (repr name) @ '': '' @ str_exn exc]"
    if "resolve_decode env (Codec name) st1 = (Inl exc, st2)" for name exc st2
    using that by (rule candidate_lines_unresolved)
  show "candidate_lines env data kwargs c st1 = []"
    if "resolve_decode env c st1 = (Inr f, st2)
          \<and> py_call f [data] kwargs = Inl exc \<and> is_DelayedImportError exc" for f exc st2
    using that candidate_lines_delayed [of env c st1 f st2 data kwargs exc] by simp
  show "candidate_lines env data kwargs c st1 = [upper tag @ '': '' @ str_exn exc]"
    if "resolve_decode env c st1 = (Inr f, st2)
          \<and> py_call f [data] kwargs = Inl exc \<and> \<not> is_DelayedImportError exc
          \<and> py_name f = Some tag" for f exc tag st2
    using that candidate_lines_raised [of env c st1 f st2 data kwargs exc tag] by simp
  show "candidate_lines env data kwargs c st1 = [upper tag @ '': failed'']"
    if "resolve_decode env c st1 = (Inr f, st2)
          \<and> py_call f [data] kwargs = Inr img \<and> dtype_of img = Some ''object''
          \<and> py_name f = Some tag" for f img tag st2
    using that candidate_lines_object [of env c st1 f st2 data kwargs img tag] by simp
  show "upper (name @ ''_decode'') = upper name @ ''_DECODE''" by (rule upper_decode)
  show "resolve_decode env (Callable g) st1 = (Inr (Function g), st1)" by simp
  show "py_name (Function g) = Some (func_name g)" by simp
qed

lemma szip_tag: "upper (repr ''szip'') = CHR 0x27 # ''SZIP'' @ [CHR 0x27]"
proof -
  have r: "repr ''szip'' = CHR 0x27 # ''szip'' @ [CHR 0x27]"
    by (rule repr_plain) (simp add: is_lower_char_def)
  show ?thesis
    by (simp add: r upper_def upper_char_def is_lower_char_def)
qed

lemma lower_aec: "lower ''aec'' = ''aec''"
  by (simp add: lower_def lower_char_def is_upper_char_def)

lemma imcodecs_aec: "map_of imcodecs ''aec'' = None"
  by (simp add: imcodecs_lookup imcodecs_table_def)

lemma hint_szip:
  "imread_codecs None (Some (Several [Codec ''szip'', Codec ''aec'', Callable none_decode]))
     = [Codec ''szip'', Codec ''aec'', Callable none_decode]"
proof -
  have l: "lower ''szip'' = ''szip''"
    by (simp add: lower_def lower_char_def is_upper_char_def)
  have m: "map_of imcodecs ''szip'' = None"
    by (simp add: imcodecs_lookup imcodecs_table_def)
  show ?thesis by (simp add: hint_items l m lower_aec imcodecs_aec)
qed

lemma hint_aec: "imread_codecs None (Some (Single (Codec ''aec''))) = [Codec ''aec'']"
  by (simp add: hint_single hint_items lower_aec imcodecs_aec)

text \<open>With no backend, the decode function of \<^verbatim>\<open>aec\<close> is the stub, whose call raises
  \<^verbatim>\<open>DelayedImportError\<close>: the candidate fails and has no line.\<close>

lemma aec_unavailable:
  "\<exists>st'. resolve_decode no_backends (Codec ''aec'') fresh_state
           = (Inr (stub ''aec_decode'' (None :: backend option)), st')"
proof -
  have ns: "namespace fresh_state ''aec_decode'' = None"
    by (simp add: fresh_state_def none_namespace_def)
  have o: "map_of (ATTRIBUTES REGISTRY) (canonical ''aec_decode'') = Some (Some ''aec'')"
    by (simp only: canonical_aec_decode owner_aec_decode)
  from resolve_backend [OF o load_no_backends, of fresh_state] obtain st' where
    "dunder_getattr no_backends fresh_state ''aec_decode''
       = (Inr (attached None ''aec_decode''), st')"
    by (auto simp only: canonical_aec_decode)
  then have "resolve_decode no_backends (Codec ''aec'') fresh_state
           = (Inr (stub ''aec_decode'' (None :: backend option)), st')"
    by (simp add: module_getattr_def ns stub_missing)
  then show ?thesis by (rule exI)
qed

lemma stub_decode_call:
  "py_call (stub ''aec_decode'' (None :: backend option)) [data] kwargs
     = Inl (DelayedImportError ''aec_decode'')"
  by (simp add: stub_def endswith_def)

lemma aec_fails:
  "candidate_fails no_backends data kwargs (Codec ''aec'') fresh_state
   \<and> candidate_lines no_backends data kwargs (Codec ''aec'') fresh_state = []"
proof -
  from aec_unavailable obtain st' where
    r: "resolve_decode no_backends (Codec ''aec'') fresh_state
          = (Inr (stub ''aec_decode'' (None :: backend option)), st')"
    by blast
  have d: "is_DelayedImportError (DelayedImportError ''aec_decode'')"
    by (simp add: DelayedImportError_def)
  have "candidate_fails no_backends data kwargs (Codec ''aec'') fresh_state"
    unfolding candidate_fails_def r prod.case sum.case decode_fails_def stub_decode_call
    using d by simp
  moreover have "candidate_lines no_backends data kwargs (Codec ''aec'') fresh_state = []"
    by (rule candidate_lines_delayed [OF r stub_decode_call d])
  ultimately show ?thesis by (rule conjI)
qed

lemma szip_fails:
  "candidate_fails no_backends data kwargs (Codec ''szip'') fresh_state
   \<and> state_after no_backends (Codec ''szip'') fresh_state = fresh_state
   \<and> candidate_lines no_backends data kwargs (Codec ''szip'') fresh_state
       = [CHR 0x27 # ''SZIP'' @ [CHR 0x27]
            @ '': module 'imagecodecs' has no attribute 'szip_decode'' @ [CHR 0x27]]"
proof -
  have r: "resolve_decode no_backends (Codec ''szip'') fresh_state =
     (Inl (AttributeError (''module 'imagecodecs' has no attribute 'szip_decode'' @ [CHR 0x27])),
      fresh_state)"
    using szip_unresolved by simp
  have "candidate_lines no_backends data kwargs (Codec ''szip'') fresh_state
       = [CHR 0x27 # ''SZIP'' @ [CHR 0x27]
            @ '': module 'imagecodecs' has no attribute 'szip_decode'' @ [CHR 0x27]]"
    unfolding candidate_lines_unresolved [OF r] szip_tag by simp
  moreover have "candidate_fails no_backends data kwargs (Codec ''szip'') fresh_state"
    unfolding candidate_fails_def r by simp
  moreover have "state_after no_backends (Codec ''szip'') fresh_state = fresh_state"
    unfolding state_after_def r by simp
  ultimately show ?thesis by (intro conjI)
qed

lemma none_decode_object_fails:
  "candidate_fails env (NDArray ''object'' [1] ''a'') [] (Callable none_decode) st
   \<and> candidate_lines env (NDArray ''object'' [1] ''a'') [] (Callable none_decode) st
       = [''NONE_DECODE: failed'']"
proof -
  have r: "resolve_decode env (Callable none_decode) st = (Inr (Function none_decode), st)"
    by simp
  have c: "py_call (Function none_decode) [NDArray ''object'' [1] ''a''] []
             = Inr (NDArray ''object'' [1] ''a'')"
    by (rule none_decode_call)
  have "candidate_fails env (NDArray ''object'' [1] ''a'') [] (Callable none_decode) st"
    unfolding candidate_fails_def r prod.case sum.case decode_fails_def c
    by (simp add: none_decode_def)
  moreover have "candidate_lines env (NDArray ''object'' [1] ''a'') [] (Callable none_decode) st
       = [''NONE_DECODE: failed'']"
  proof -
    have "candidate_lines env (NDArray ''object'' [1] ''a'') [] (Callable none_decode) st
       = [upper ''none_decode'' @ '': failed'']"
      by (rule candidate_lines_object [OF r c _ none_decode_name]) simp
    then show ?thesis by (simp add: upper_none_decode)
  qed
  ultimately show ?thesis by (rule conjI)
qed

theorem imread_all_fail_witness:
  "all_fail no_backends (NDArray ''object'' [1] ''a'') []
     (imread_codecs None (Some (Several [Codec ''szip'', Codec ''aec'', Callable none_decode])))
     fresh_state
   \<and> imread no_backends fresh_state (NDArray ''object'' [1] ''a'') None
        (Some (Several [Codec ''szip'', Codec ''aec'', Callable none_decode])) False []
     = Inl (ValueError
         (CHR 0x27 # ''SZIP'' @ [CHR 0x27]
            @ '': module 'imagecodecs' has no attribute 'szip_decode'' @ [CHR 0x27, CHR 0x0A]
            @ ''NONE_DECODE: failed''))"
proof -
  let ?data = "NDArray ''object'' [1] ''a''"
  let ?st = "state_after no_backends (Codec ''aec'') fresh_state"
  note sz = szip_fails [of ?data "[]"]
  note ae = aec_fails [of ?data "[]"]
  note nd = none_decode_object_fails [of no_backends ?st]
  have af: "all_fail no_backends ?data []
      (imread_codecs None (Some (Several [Codec ''szip'', Codec ''aec'', Callable none_decode])))
      fresh_state"
    unfolding hint_szip all_fail.simps
    using sz ae nd by simp
  have d: "diagnostics no_backends ?data []
      (imread_codecs None (Some (Several [Codec ''szip'', Codec ''aec'', Callable none_decode])))
      fresh_state
      = [CHR 0x27 # ''SZIP'' @ [CHR 0x27]
            @ '': module 'imagecodecs' has no attribute 'szip_decode'' @ [CHR 0x27],
         ''NONE_DECODE: failed'']"
    unfolding hint_szip diagnostics.simps
    using sz ae nd by simp
  from imread_all_fail [OF af, of False]
  have "imread no_backends fresh_state ?data None
        (Some (Several [Codec ''szip'', Codec ''aec'', Callable none_decode])) False []
      = Inl (ValueError (join [CHR 0x0A]
          (diagnostics no_backends ?data []
             (imread_codecs None
                (Some (Several [Codec ''szip'', Codec ''aec'', Callable none_decode])))
             fresh_state)))"
    by (rule conjunct1)
  then have "imread no_backends fresh_state ?data None
        (Some (Several [Codec ''szip'', Codec ''aec'', Callable none_decode])) False []
     = Inl (ValueError
         (CHR 0x27 # ''SZIP'' @ [CHR 0x27]
            @ '': module 'imagecodecs' has no attribute 'szip_decode'' @ [CHR 0x27, CHR 0x0A]
            @ ''NONE_DECODE: failed''))"
    unfolding d by simp
  with af show ?thesis by (rule conjI)
qed

text \<open>
  The claim as first stated fails for the hint \<^verbatim>\<open>'aec'\<close> where no backend can be
  imported: the one candidate fails, and \<^verbatim>\<open>imread\<close> raises a \<^verbatim>\<open>ValueError\<close> whose
  message is empty, so it has no line for the candidate and does not hold its name.
\<close>

theorem imread_all_fail_counterexample:
  "imread_codecs None (Some (Single (Codec ''aec''))) = [Codec ''aec'']
   \<and> candidate_fails no_backends (PyBytes ''abc'') [] (Codec ''aec'') fresh_state
   \<and> imread no_backends fresh_state (PyBytes ''abc'') None (Some (Single (Codec ''aec''))) False []
       = Inl (ValueError [])"
proof -
  note ae = aec_fails [of "PyBytes ''abc''" "[]"]
  have af: "all_fail no_backends (PyBytes ''abc'') [] [Codec ''aec''] fresh_state"
    using ae by simp
  have d: "diagnostics no_backends (PyBytes ''abc'') [] [Codec ''aec''] fresh_state = []"
    using ae by simp
  have "imread no_backends fresh_state (PyBytes ''abc'') None (Some (Single (Codec ''aec'')))
          False []
       = Inl (ValueError [])"
    unfolding imread_def hint_aec imread_from_all_fail [OF af] d by simp
  with hint_aec ae show ?thesis by simp
qed

end
